theory Spec2Isabelle
  imports Complex_Main "HOL-Library.Sublist"
begin

section \<open>Python values and the operations the loaders apply to them\<close>

text \<open>
  The three loaders (\<^verbatim>\<open>load_countries.py\<close>, \<^verbatim>\<open>load_indicators.py\<close>,
  \<^verbatim>\<open>load_values.py\<close>) work on whatever \<^verbatim>\<open>response.json()\<close> returns: a tree of
  dicts, lists, strings, numbers, booleans and \<^verbatim>\<open>None\<close>. Numbers are kept as exact
  rationals (no rounding, no NaN); a dict is the list of its items, looked up from the
  front.
\<close>

datatype json =
    JNull
  | JBool bool
  | JNum rat
  | JStr string
  | JArr "json list"
  | JObj "(string \<times> json) list"

text \<open>Every exception the modelled statements can raise. The loaders catch them all with
  \<^verbatim>\<open>except Exception\<close>, so only the fact that one was raised changes the control flow.\<close>

datatype error =
    KeyError
  | IndexError
  | AttributeError
  | TypeError
  | ValueError
  | RequestError
  | DatabaseError

definition ebind :: "error + 'a \<Rightarrow> ('a \<Rightarrow> error + 'b) \<Rightarrow> error + 'b" where
  "ebind m f = (case m of Inl e \<Rightarrow> Inl e | Inr x \<Rightarrow> f x)"

text \<open>\<^verbatim>\<open>not x\<close> is true for \<^verbatim>\<open>None\<close>, \<^verbatim>\<open>False\<close>, zero and every empty container.\<close>

fun truthy :: "json \<Rightarrow> bool" where
  "truthy JNull = False"
| "truthy (JBool b) = b"
| "truthy (JNum r) = (r \<noteq> 0)"
| "truthy (JStr s) = (s \<noteq> [])"
| "truthy (JArr xs) = (xs \<noteq> [])"
| "truthy (JObj kvs) = (kvs \<noteq> [])"

text \<open>\<^verbatim>\<open>x.get(key, default)\<close>: only a dict has the method.\<close>

fun dict_get :: "json \<Rightarrow> string \<Rightarrow> json \<Rightarrow> error + json" where
  "dict_get (JObj kvs) k d = Inr (case map_of kvs k of None \<Rightarrow> d | Some v \<Rightarrow> v)"
| "dict_get _ k d = Inl AttributeError"

text \<open>\<^verbatim>\<open>x['key']\<close>: a dict without the key raises KeyError; a list or a string wants an
  integer index, the other values are not subscriptable.\<close>

fun subscript_key :: "json \<Rightarrow> string \<Rightarrow> error + json" where
  "subscript_key (JObj kvs) k = (case map_of kvs k of None \<Rightarrow> Inl KeyError | Some v \<Rightarrow> Inr v)"
| "subscript_key _ k = Inl TypeError"

text \<open>\<^verbatim>\<open>x[i]\<close> for the literal indices 0 and 1 of the source. The keys of a parsed JSON
  object are strings, so an integer is never among them.\<close>

fun subscript_index :: "json \<Rightarrow> nat \<Rightarrow> error + json" where
  "subscript_index (JArr xs) i = (if i < length xs then Inr (xs ! i) else Inl IndexError)"
| "subscript_index (JStr s) i = (if i < length s then Inr (JStr [s ! i]) else Inl IndexError)"
| "subscript_index (JObj kvs) i = Inl KeyError"
| "subscript_index _ i = Inl TypeError"

fun py_len :: "json \<Rightarrow> error + nat" where
  "py_len (JArr xs) = Inr (length xs)"
| "py_len (JStr s) = Inr (length s)"
| "py_len (JObj kvs) = Inr (length kvs)"
| "py_len _ = Inl TypeError"

text \<open>\<^verbatim>\<open>for x in v\<close>: a list yields its elements, a dict its keys, a string its
  characters; nothing else is iterable.\<close>

fun py_iter :: "json \<Rightarrow> error + json list" where
  "py_iter (JArr xs) = Inr xs"
| "py_iter (JObj kvs) = Inr (map (\<lambda>kv. JStr (fst kv)) kvs)"
| "py_iter (JStr s) = Inr (map (\<lambda>c. JStr [c]) s)"
| "py_iter _ = Inl TypeError"

text \<open>\<^verbatim>\<open>page >= v\<close> with an integer on the left: defined against a number or a boolean
  (\<^verbatim>\<open>True\<close> is 1), a TypeError against anything else.\<close>

fun page_ge :: "nat \<Rightarrow> json \<Rightarrow> error + bool" where
  "page_ge page (JNum r) = Inr (r \<le> of_nat page)"
| "page_ge page (JBool b) = Inr ((if b then 1 else 0) \<le> page)"
| "page_ge page _ = Inl TypeError"

definition is_list :: "json \<Rightarrow> bool" where
  "is_list v = (case v of JArr _ \<Rightarrow> True | _ \<Rightarrow> False)"

definition is_dict :: "json \<Rightarrow> bool" where
  "is_dict v = (case v of JObj _ \<Rightarrow> True | _ \<Rightarrow> False)"

section \<open>Record mapping\<close>

subsection \<open>Countries (\<^verbatim>\<open>load_countries.py\<close>, lines 88-100)\<close>

record country_row =
  country_id :: json
  iso2_code :: json
  country_name :: json
  region_id :: json
  region_name :: json
  income_level_id :: json
  income_level_name :: json
  capital_city :: json
  longitude :: json
  latitude :: json

text \<open>The dict literal evaluates its values in order; \<^verbatim>\<open>country.get('region', {})\<close>
  gives the empty dict only when the key is absent, and what the key holds otherwise.\<close>

definition map_country :: "json \<Rightarrow> error + country_row" where
  "map_country country =
     ebind (dict_get country ''id'' JNull) (\<lambda>v1.
     ebind (dict_get country ''iso2Code'' JNull) (\<lambda>v2.
     ebind (dict_get country ''name'' JNull) (\<lambda>v3.
     ebind (ebind (dict_get country ''region'' (JObj [])) (\<lambda>r. dict_get r ''id'' JNull)) (\<lambda>v4.
     ebind (ebind (dict_get country ''region'' (JObj [])) (\<lambda>r. dict_get r ''value'' JNull)) (\<lambda>v5.
     ebind (ebind (dict_get country ''incomeLevel'' (JObj [])) (\<lambda>r. dict_get r ''id'' JNull)) (\<lambda>v6.
     ebind (ebind (dict_get country ''incomeLevel'' (JObj [])) (\<lambda>r. dict_get r ''value'' JNull)) (\<lambda>v7.
     ebind (dict_get country ''capitalCity'' JNull) (\<lambda>v8.
     ebind (dict_get country ''longitude'' JNull) (\<lambda>v9.
     ebind (dict_get country ''latitude'' JNull) (\<lambda>v10.
     Inr \<lparr>country_id = v1, iso2_code = v2, country_name = v3, region_id = v4,
          region_name = v5, income_level_id = v6, income_level_name = v7,
          capital_city = v8, longitude = v9, latitude = v10\<rparr>))))))))))"

subsection \<open>Indicators (\<^verbatim>\<open>load_indicators.py\<close>, lines 35-40 and 91-101)\<close>

record indicator_row =
  indicator_id :: json
  indicator_name :: json
  source_id :: json
  source_name :: json
  source_note :: json
  source_organization :: json
  topic_id :: json
  topic :: json

definition get_topic_field :: "json \<Rightarrow> string \<Rightarrow> error + json" where
  "get_topic_field indicator field =
     ebind (dict_get indicator ''topics'' JNull) (\<lambda>topics.
       case topics of
         JArr (t # ts) \<Rightarrow> (if is_dict t then dict_get t field JNull else Inr JNull)
       | _ \<Rightarrow> Inr JNull)"

definition map_indicator :: "json \<Rightarrow> error + indicator_row" where
  "map_indicator indicator =
     ebind (dict_get indicator ''id'' JNull) (\<lambda>v1.
     ebind (dict_get indicator ''name'' JNull) (\<lambda>v2.
     ebind (ebind (dict_get indicator ''source'' (JObj [])) (\<lambda>r. dict_get r ''id'' JNull)) (\<lambda>v3.
     ebind (ebind (dict_get indicator ''source'' (JObj [])) (\<lambda>r. dict_get r ''value'' JNull)) (\<lambda>v4.
     ebind (dict_get indicator ''sourceNote'' JNull) (\<lambda>v5.
     ebind (dict_get indicator ''sourceOrganization'' JNull) (\<lambda>v6.
     ebind (get_topic_field indicator ''id'') (\<lambda>v7.
     ebind (get_topic_field indicator ''value'') (\<lambda>v8.
     Inr \<lparr>indicator_id = v1, indicator_name = v2, source_id = v3, source_name = v4,
          source_note = v5, source_organization = v6, topic_id = v7, topic = v8\<rparr>))))))))"

subsection \<open>Observations (\<^verbatim>\<open>load_values.py\<close>, lines 114-123)\<close>

record value_row =
  obs_country_id :: json
  obs_country :: json
  obs_indicator_id :: json
  obs_indicator :: json
  obs_year :: json
  obs_value :: json

text \<open>The dict literal of lines 116-123, built with plain subscripts.\<close>

definition map_value :: "json \<Rightarrow> error + value_row" where
  "map_value item =
     ebind (subscript_key item ''countryiso3code'') (\<lambda>v1.
     ebind (ebind (subscript_key item ''country'') (\<lambda>c. subscript_key c ''value'')) (\<lambda>v2.
     ebind (ebind (subscript_key item ''indicator'') (\<lambda>i. subscript_key i ''id'')) (\<lambda>v3.
     ebind (ebind (subscript_key item ''indicator'') (\<lambda>i. subscript_key i ''value'')) (\<lambda>v4.
     ebind (subscript_key item ''date'') (\<lambda>v5.
     ebind (subscript_key item ''value'') (\<lambda>v6.
     Inr \<lparr>obs_country_id = v1, obs_country = v2, obs_indicator_id = v3,
          obs_indicator = v4, obs_year = v5, obs_value = v6\<rparr>))))))"

text \<open>One pass of \<^verbatim>\<open>for country in data[1]: all_countries.append({...})\<close>: the rows
  mapped before an exception stay appended, the exception leaves the loop.\<close>

fun append_mapped :: "(json \<Rightarrow> error + 'r) \<Rightarrow> json list \<Rightarrow> 'r list \<Rightarrow> error option \<times> 'r list" where
  "append_mapped f [] acc = (None, acc)"
| "append_mapped f (x # xs) acc =
     (case f x of
        Inl e \<Rightarrow> (Some e, acc)
      | Inr r \<Rightarrow> append_mapped f xs (acc @ [r]))"

text \<open>Lines 114-123 of \<^verbatim>\<open>load_values.py\<close>: an item is mapped only when
  \<^verbatim>\<open>item.get('value') is not None\<close>.\<close>

fun append_values :: "json list \<Rightarrow> value_row list \<Rightarrow> error option \<times> value_row list" where
  "append_values [] acc = (None, acc)"
| "append_values (item # items) acc =
     (case dict_get item ''value'' JNull of
        Inl e \<Rightarrow> (Some e, acc)
      | Inr v \<Rightarrow>
          if v \<noteq> JNull then
            (case map_value item of
               Inl e \<Rightarrow> (Some e, acc)
             | Inr r \<Rightarrow> append_values items (acc @ [r]))
          else append_values items acc)"

section \<open>Collecting the pages\<close>

text \<open>What the loaders print, one constructor per \<^verbatim>\<open>print\<close> call (the wording is not
  modelled, the arguments that matter are).\<close>

datatype msg =
    MsgStart
  | MsgMissingVars "string list"
  | MsgConnected
  | MsgConnectError
  | MsgLoading
  | MsgPage nat
  | MsgProcessed nat
  | MsgIndicatorStart string
  | MsgNoIndicatorData string
  | MsgIndicatorPage string nat json
  | MsgEmptyPage string
  | MsgProcessedOnPage nat nat
  | MsgIndicatorComplete string json
  | MsgIndicatorDone string nat
  | MsgFetchError error
  | MsgNoData
  | MsgTotal nat
  | MsgAfterFilter nat
  | MsgDeleted nat
  | MsgAfterDedup nat
  | MsgSaving
  | MsgTableCreated string
  | MsgTableError
  | MsgDone nat
  | MsgStructure
  | MsgCount nat
  | MsgSaveError

text \<open>The variables of a collection loop: the accumulated rows, the requests issued so
  far (in order) and the lines printed so far.\<close>

record ('r, 'q) collector =
  acc :: "'r list"
  requests :: "'q list"
  printed :: "msg list"

text \<open>How one pass through the body of \<^verbatim>\<open>while True\<close> ends: \<^verbatim>\<open>break\<close>, an exception,
  or the next page.\<close>

datatype 's step = Stop 's | Raise error 's | Next 's

text \<open>The body of the loop of \<^verbatim>\<open>load_countries.py\<close> (lines 76-106) and of
  \<^verbatim>\<open>load_indicators.py\<close> (lines 79-107), which differ in the record mapper only.
  \<open>api page\<close> is what \<^verbatim>\<open>requests.get\<close>, \<^verbatim>\<open>raise_for_status\<close> and \<^verbatim>\<open>response.json()\<close>
  give for that page: the parsed body, or the exception one of them raised.\<close>

definition page_step ::
  "(json \<Rightarrow> error + 'r) \<Rightarrow> (nat \<Rightarrow> error + json) \<Rightarrow> nat \<Rightarrow> ('r, nat) collector
     \<Rightarrow> ('r, nat) collector step" where
  "page_step f api page st =
     (let st1 = st\<lparr>requests := requests st @ [page], printed := printed st @ [MsgPage page]\<rparr> in
      case api page of
        Inl e \<Rightarrow> Raise e st1
      | Inr data \<Rightarrow>
          (case data of
             JArr xs \<Rightarrow>
               if length xs < 2 \<or> \<not> truthy (xs ! 1) then Stop st1
               else
                 (case py_iter (xs ! 1) of
                    Inl e \<Rightarrow> Raise e st1
                  | Inr items \<Rightarrow>
                      (case append_mapped f items (acc st1) of
                         (Some e, rows) \<Rightarrow> Raise e (st1\<lparr>acc := rows\<rparr>)
                       | (None, rows) \<Rightarrow>
                           let st2 = st1\<lparr>acc := rows,
                                 printed := printed st1 @ [MsgProcessed (length items)]\<rparr> in
                           (case ebind (dict_get (xs ! 0) ''pages'' (JNum 1)) (page_ge page) of
                              Inl e \<Rightarrow> Raise e st2
                            | Inr True \<Rightarrow> Stop st2
                            | Inr False \<Rightarrow> Next st2)))
           | _ \<Rightarrow> Stop st1))"

text \<open>The \<^verbatim>\<open>while True\<close> loop. Nothing bounds the number of pages the API may announce,
  so the loop is partial: \<open>None\<close> is the run that never leaves it.\<close>

partial_function (option) collect_pages ::
  "(json \<Rightarrow> error + 'r) \<Rightarrow> (nat \<Rightarrow> error + json) \<Rightarrow> nat \<Rightarrow> ('r, nat) collector
     \<Rightarrow> (error option \<times> ('r, nat) collector) option" where
  "collect_pages f api page st =
     (case page_step f api page st of
        Stop s \<Rightarrow> Some (None, s)
      | Raise e s \<Rightarrow> Some (Some e, s)
      | Next s \<Rightarrow> collect_pages f api (Suc page) s)"

text \<open>The body of the inner loop of \<^verbatim>\<open>load_values.py\<close> (lines 87-131) for one
  indicator. The pause of line 131 has no effect on the values computed.\<close>

definition value_step ::
  "(string \<Rightarrow> nat \<Rightarrow> error + json) \<Rightarrow> string \<Rightarrow> nat \<Rightarrow> (value_row, string \<times> nat) collector
     \<Rightarrow> (value_row, string \<times> nat) collector step" where
  "value_step api indicator page st =
     (let st1 = st\<lparr>requests := requests st @ [(indicator, page)]\<rparr> in
      case api indicator page of
        Inl e \<Rightarrow> Raise e st1
      | Inr data \<Rightarrow>
          if \<not> truthy data then Stop (st1\<lparr>printed := printed st1 @ [MsgNoIndicatorData indicator]\<rparr>)
          else
            (case py_len data of
               Inl e \<Rightarrow> Raise e st1
             | Inr n \<Rightarrow>
                 if n < 2 then Stop (st1\<lparr>printed := printed st1 @ [MsgNoIndicatorData indicator]\<rparr>)
                 else
                   (case ebind (subscript_index data 0) (\<lambda>metadata. dict_get metadata ''pages'' (JNum 1)) of
                      Inl e \<Rightarrow> Raise e st1
                    | Inr total_pages \<Rightarrow>
                        let st2 = st1\<lparr>printed := printed st1 @ [MsgIndicatorPage indicator page total_pages]\<rparr> in
                        (case subscript_index data 1 of
                           Inl e \<Rightarrow> Raise e st2
                         | Inr page_data \<Rightarrow>
                             if \<not> truthy page_data then
                               Stop (st2\<lparr>printed := printed st2 @ [MsgEmptyPage indicator]\<rparr>)
                             else
                               (case py_iter page_data of
                                  Inl e \<Rightarrow> Raise e st2
                                | Inr items \<Rightarrow>
                                    (case append_values items (acc st2) of
                                       (Some e, rows) \<Rightarrow> Raise e (st2\<lparr>acc := rows\<rparr>)
                                     | (None, rows) \<Rightarrow>
                                         let st3 = st2\<lparr>acc := rows,
                                               printed := printed st2 @ [MsgProcessedOnPage (length items) page]\<rparr> in
                                         (case page_ge page total_pages of
                                            Inl e \<Rightarrow> Raise e st3
                                          | Inr True \<Rightarrow>
                                              Stop (st3\<lparr>printed := printed st3 @ [MsgIndicatorComplete indicator total_pages]\<rparr>)
                                          | Inr False \<Rightarrow> Next st3)))))))"

partial_function (option) collect_indicator ::
  "(string \<Rightarrow> nat \<Rightarrow> error + json) \<Rightarrow> string \<Rightarrow> nat \<Rightarrow> (value_row, string \<times> nat) collector
     \<Rightarrow> (error option \<times> (value_row, string \<times> nat) collector) option" where
  "collect_indicator api indicator page st =
     (case value_step api indicator page st of
        Stop s \<Rightarrow> Some (None, s)
      | Raise e s \<Rightarrow> Some (Some e, s)
      | Next s \<Rightarrow> collect_indicator api indicator (Suc page) s)"

text \<open>The outer loop of lines 82-133: each indicator starts again at page 1; an
  exception inside leaves both loops.\<close>

fun collect_values ::
  "(string \<Rightarrow> nat \<Rightarrow> error + json) \<Rightarrow> string list \<Rightarrow> (value_row, string \<times> nat) collector
     \<Rightarrow> (error option \<times> (value_row, string \<times> nat) collector) option" where
  "collect_values api [] st = Some (None, st)"
| "collect_values api (indicator # rest) st =
     (case collect_indicator api indicator 1
             (st\<lparr>printed := printed st @ [MsgIndicatorStart indicator]\<rparr>) of
        None \<Rightarrow> None
      | Some (Some e, s) \<Rightarrow> Some (Some e, s)
      | Some (None, s) \<Rightarrow>
          collect_values api rest
            (s\<lparr>printed := printed s @ [MsgIndicatorDone indicator (length (acc s))]\<rparr>))"

definition indicators :: "string list" where
  "indicators =
     [''NY.GDP.MKTP.CD'', ''NY.GDP.PCAP.CD'', ''SP.POP.TOTL'', ''SP.URB.TOTL.IN.ZS'',
      ''SE.XPD.TOTL.GD.ZS'', ''IP.JRN.ARTC.SC'', ''SH.XPD.CHEX.GD.ZS'', ''SH.DYN.MORT'',
      ''IT.NET.USER.ZS'', ''EG.ELC.ACCS.ZS'', ''EG.USE.PCAP.KG.OE'']"

section \<open>Transformations\<close>

subsection \<open>Countries (\<^verbatim>\<open>load_countries.py\<close>, lines 121-131)\<close>

text \<open>\<^verbatim>\<open>df[df['region_name'] != 'Aggregates']\<close>: a boolean mask computed row by row,
  then the rows whose mask entry is true, in their order.\<close>

definition filter_aggregates :: "country_row list \<Rightarrow> country_row list" where
  "filter_aggregates df =
     (let mask = map (\<lambda>r. region_name r \<noteq> JStr ''Aggregates'') df
      in map fst (filter snd (zip df mask)))"

text \<open>
  \<^verbatim>\<open>pd.to_numeric(column, errors='coerce')\<close> converts a column as a whole, in the type
  pandas has inferred for it, and what it gives depends on what the column holds:
  \<^item> a column of booleans only is numeric for pandas already and comes back as it is;
  \<^item> in a column of nulls, strings and numbers a null gives NaN (stored as SQL NULL), a
    string gives the number pandas reads from it, or NaN when it reads none, and a
    number stays;
  \<^item> pandas computes in 64-bit floats as soon as one cell is a float or NaN: an integer
    beyond \<open>2\<^sup>5\<^sup>3\<close> is then rounded, or not, depending on the other cells, and a string
    can read as an infinity. Such a column, and a column that mixes booleans or holds
    lists or dicts, is not described here: its result is \<open>other_floats\<close>, a parameter.

  \<open>read_float\<close> is pandas' reading of one string: no number, the number it denotes, or an
  infinity.
\<close>

datatype parsed = NotNumber | Number rat | NonFinite

record float_reader =
  read_float :: "string \<Rightarrow> parsed"
  other_floats :: "json list \<Rightarrow> nat \<Rightarrow> json"

text \<open>A number that pandas holds without rounding whether it keeps the column as 64-bit
  integers or as 64-bit floats: not an integer, or an integer of magnitude at most
  \<open>2\<^sup>5\<^sup>3\<close>.\<close>

definition stable :: "rat \<Rightarrow> bool" where
  "stable r = (of_int \<lfloor>r\<rfloor> \<noteq> r \<or> \<bar>r\<bar> \<le> 2 ^ 53)"

fun is_bool :: "json \<Rightarrow> bool" where
  "is_bool (JBool b) = True"
| "is_bool _ = False"

fun plain_cell :: "(string \<Rightarrow> parsed) \<Rightarrow> json \<Rightarrow> bool" where
  "plain_cell rd JNull = True"
| "plain_cell rd (JNum r) = stable r"
| "plain_cell rd (JStr s) =
     (case rd s of NotNumber \<Rightarrow> True | Number x \<Rightarrow> stable x | NonFinite \<Rightarrow> False)"
| "plain_cell rd _ = False"

fun coerce_cell :: "(string \<Rightarrow> parsed) \<Rightarrow> json \<Rightarrow> json" where
  "coerce_cell rd (JNum r) = JNum r"
| "coerce_cell rd (JStr s) = (case rd s of Number x \<Rightarrow> JNum x | _ \<Rightarrow> JNull)"
| "coerce_cell rd _ = JNull"

definition to_numeric :: "float_reader \<Rightarrow> json list \<Rightarrow> json list" where
  "to_numeric to_float column =
     (if list_all is_bool column then column
      else if list_all (plain_cell (read_float to_float)) column
        then map (coerce_cell (read_float to_float)) column
      else map (other_floats to_float column) [0..<length column])"

text \<open>Lines 130 and 131: each of the two columns is converted and assigned back, row by
  row.\<close>

definition coerce_coordinates :: "float_reader \<Rightarrow> country_row list \<Rightarrow> country_row list" where
  "coerce_coordinates to_float df =
     (let df1 = map (\<lambda>(r, v). r\<lparr>longitude := v\<rparr>) (zip df (to_numeric to_float (map longitude df)))
      in map (\<lambda>(r, v). r\<lparr>latitude := v\<rparr>) (zip df1 (to_numeric to_float (map latitude df1))))"

definition transform_countries :: "float_reader \<Rightarrow> country_row list \<Rightarrow> country_row list" where
  "transform_countries to_float df = coerce_coordinates to_float (filter_aggregates df)"

subsection \<open>Indicators (\<^verbatim>\<open>load_indicators.py\<close>, line 123)\<close>

text \<open>
  \<^verbatim>\<open>df.drop_duplicates(subset='indicator_id')\<close> keeps, of the rows whose identifiers are
  equal, the first. pandas compares the identifiers as Python does: \<^verbatim>\<open>True\<close>, \<^verbatim>\<open>1\<close> and
  \<^verbatim>\<open>1.0\<close> are one identifier, lists are equal when their elements are. \<open>key_of\<close> gives
  equal keys to exactly the identifiers that are equal in this sense. It has no key for
  a dict; and for a column with an integer beyond \<open>2\<^sup>5\<^sup>3\<close> pandas may compare in 64-bit
  floats. The result on a frame with such an identifier is \<open>other\<close>, a parameter.
\<close>

datatype key = KNull | KNum rat | KStr string | KList "key list"

fun key_of :: "json \<Rightarrow> key option" where
  "key_of JNull = Some KNull"
| "key_of (JBool b) = Some (KNum (if b then 1 else 0))"
| "key_of (JNum r) = Some (KNum r)"
| "key_of (JStr s) = Some (KStr s)"
| "key_of (JArr xs) = map_option KList (those (map key_of xs))"
| "key_of (JObj kvs) = None"

definition plain_id :: "json \<Rightarrow> bool" where
  "plain_id v = (key_of v \<noteq> None \<and> (case v of JNum r \<Rightarrow> stable r | _ \<Rightarrow> True))"

fun keep_first :: "key option list \<Rightarrow> indicator_row list \<Rightarrow> indicator_row list" where
  "keep_first seen [] = []"
| "keep_first seen (r # rs) =
     (if key_of (indicator_id r) \<in> set seen then keep_first seen rs
      else r # keep_first (key_of (indicator_id r) # seen) rs)"

definition drop_duplicates ::
  "(indicator_row list \<Rightarrow> indicator_row list) \<Rightarrow> indicator_row list \<Rightarrow> indicator_row list" where
  "drop_duplicates other df =
     (if list_all (\<lambda>r. plain_id (indicator_id r)) df then keep_first [] df else other df)"

subsection \<open>Observations (\<^verbatim>\<open>load_values.py\<close>, line 149)\<close>

text \<open>
  \<^verbatim>\<open>df['year'].astype('int64')\<close> converts the column of dates as a whole. In a column of
  strings each string is read on its own: \<open>read_int\<close> is that reading, the 64-bit integer
  or the exception raised. What a column holding anything else than strings gives depends
  on the type pandas has inferred for it (a float beyond 64 bits is cast without an
  exception in a column of floats, and raises next to a string); it is \<open>other_ints\<close>, a
  parameter. One cell that raises makes the conversion raise, and no frame is produced.
\<close>

record int_reader =
  read_int :: "string \<Rightarrow> error + int"
  other_ints :: "json list \<Rightarrow> nat \<Rightarrow> error + int"

fun is_str :: "json \<Rightarrow> bool" where
  "is_str (JStr s) = True"
| "is_str _ = False"

definition astype_int64 :: "int_reader \<Rightarrow> json list \<Rightarrow> (error + int) list" where
  "astype_int64 to_int column =
     (if list_all is_str column
        then map (\<lambda>cell. case cell of JStr s \<Rightarrow> read_int to_int s | _ \<Rightarrow> Inl TypeError) column
      else map (other_ints to_int column) [0..<length column])"

text \<open>The assignment \<^verbatim>\<open>df['year'] = ...\<close>: the converted years, row by row, unless a cell
  raised.\<close>

fun assign_years :: "value_row list \<Rightarrow> (error + int) list \<Rightarrow> error + value_row list" where
  "assign_years (r # rs) (cell # cells) =
     (case cell of
        Inl e \<Rightarrow> Inl e
      | Inr i \<Rightarrow>
          (case assign_years rs cells of
             Inl e \<Rightarrow> Inl e
           | Inr out \<Rightarrow> Inr (r\<lparr>obs_year := JNum (of_int i)\<rparr> # out)))"
| "assign_years _ _ = Inr []"

definition year_astype_int64 :: "int_reader \<Rightarrow> value_row list \<Rightarrow> error + value_row list" where
  "year_astype_int64 to_int df = assign_years df (astype_int64 to_int (map obs_year df))"

section \<open>The store and the three programs\<close>

datatype engine_status = NoEngine | Live | Disposed

text \<open>What a run can touch: the tables of the store (\<open>None\<close>: no such table), the
  connection pool of the engine, the console and the requests sent to the API.\<close>

record ('r, 'q) world =
  tables :: "string \<Rightarrow> 'r list option"
  engine :: engine_status
  stdout :: "msg list"
  fetched :: "'q list"

text \<open>The statements sent to the store can fail; which of them do is part of the
  environment of a run, as is the answer of pandas' \<^verbatim>\<open>drop_duplicates\<close> on a frame that
  the model does not describe (\<open>dedup_other\<close>).\<close>

record faults =
  begin_fails :: bool
  drop_fails :: bool
  create_fails :: bool
  commit_fails :: bool
  insert_fails :: bool
  verify_fails :: bool

record 'a env =
  getenv :: "string \<Rightarrow> string option"
  connect_ok :: bool
  api :: 'a
  db :: faults
  dedup_other :: "indicator_row list \<Rightarrow> indicator_row list"

datatype outcome = Returned | Crashed error

definition say :: "('r, 'q) world \<Rightarrow> msg \<Rightarrow> ('r, 'q) world" where
  "say w m = w\<lparr>stdout := stdout w @ [m]\<rparr>"

definition required_vars :: "string list" where
  "required_vars = [''DB_USER'', ''DB_PASS'', ''DB_HOST'', ''DB_PORT'', ''DB_NAME'']"

definition missing_vars :: "(string \<Rightarrow> string option) \<Rightarrow> string list" where
  "missing_vars ge = filter (\<lambda>var. case ge var of None \<Rightarrow> True | Some v \<Rightarrow> v = []) required_vars"

text \<open>A transaction on the store, as \<^verbatim>\<open>with engine.begin() as conn\<close> opens it: the
  statements run on the pending tables, which replace the committed ones when the block
  is left normally and are discarded when it is left by an exception.\<close>

record 'r transaction =
  committed :: "string \<Rightarrow> 'r list option"
  pending :: "string \<Rightarrow> 'r list option"

definition engine_begin :: "(string \<Rightarrow> 'r list option) \<Rightarrow> 'r transaction" where
  "engine_begin tbls = \<lparr>committed = tbls, pending = tbls\<rparr>"

text \<open>\<^verbatim>\<open>DROP TABLE IF EXISTS name\<close> and \<^verbatim>\<open>CREATE TABLE name (...)\<close>; the second is an error
  when the table exists.\<close>

definition execute_drop :: "string \<Rightarrow> 'r transaction \<Rightarrow> 'r transaction" where
  "execute_drop name conn = conn\<lparr>pending := (pending conn)(name := None)\<rparr>"

definition execute_create :: "string \<Rightarrow> 'r transaction \<Rightarrow> error + 'r transaction" where
  "execute_create name conn =
     (if pending conn name \<noteq> None then Inl DatabaseError
      else Inr (conn\<lparr>pending := (pending conn)(name := Some [])\<rparr>))"

definition commit :: "'r transaction \<Rightarrow> (string \<Rightarrow> 'r list option)" where
  "commit conn = pending conn"

definition rollback :: "'r transaction \<Rightarrow> (string \<Rightarrow> 'r list option)" where
  "rollback conn = committed conn"

text \<open>\<^verbatim>\<open>create_countries_table\<close>, \<^verbatim>\<open>create_indicators_table\<close> and \<^verbatim>\<open>create_values_table\<close>
  are the same function up to the column list: both statements run inside one
  \<^verbatim>\<open>engine.begin()\<close> block, and any exception is caught, reported and turned into
  \<^verbatim>\<open>False\<close>.\<close>

definition create_table :: "faults \<Rightarrow> string \<Rightarrow> ('r, 'q) world \<Rightarrow> bool \<times> ('r, 'q) world" where
  "create_table fl table_name w =
     (if begin_fails fl then (False, say w MsgTableError)
      else
        let conn = engine_begin (tables w) in
        if drop_fails fl then (False, say (w\<lparr>tables := rollback conn\<rparr>) MsgTableError)
        else
          let conn1 = execute_drop table_name conn in
          (case (if create_fails fl then Inl DatabaseError else execute_create table_name conn1) of
             Inl e \<Rightarrow> (False, say (w\<lparr>tables := rollback conn1\<rparr>) MsgTableError)
           | Inr conn2 \<Rightarrow>
               if commit_fails fl then (False, say (w\<lparr>tables := rollback conn2\<rparr>) MsgTableError)
               else (True, say (w\<lparr>tables := commit conn2\<rparr>) (MsgTableCreated table_name))))"

definition create_countries_table :: "faults \<Rightarrow> (country_row, 'q) world \<Rightarrow> bool \<times> (country_row, 'q) world" where
  "create_countries_table fl w = create_table fl ''worldbank_countries'' w"

definition create_indicators_table :: "faults \<Rightarrow> (indicator_row, 'q) world \<Rightarrow> bool \<times> (indicator_row, 'q) world" where
  "create_indicators_table fl w = create_table fl ''worldbank_indicators'' w"

definition create_values_table :: "faults \<Rightarrow> (value_row, 'q) world \<Rightarrow> bool \<times> (value_row, 'q) world" where
  "create_values_table fl w = create_table fl ''worldbank_values'' w"

text \<open>\<^verbatim>\<open>df.to_sql(name, if_exists='append')\<close>: the rows are added to the table, which is
  created when it does not exist. pandas inserts inside one transaction, so a load that
  fails leaves the table as it was.\<close>

definition to_sql :: "string \<Rightarrow> 'r list \<Rightarrow> (string \<Rightarrow> 'r list option) \<Rightarrow> (string \<Rightarrow> 'r list option)" where
  "to_sql name df tbls =
     tbls(name := Some ((case tbls name of None \<Rightarrow> [] | Some old \<Rightarrow> old) @ df))"

definition dispose :: "('r, 'q) world \<Rightarrow> ('r, 'q) world" where
  "dispose w = w\<lparr>engine := Disposed\<rparr>"

text \<open>The last \<^verbatim>\<open>try ... except ... finally\<close> block of each \<^verbatim>\<open>main\<close> (lines 135-169 of
  \<^verbatim>\<open>load_countries.py\<close>): create the table, load, query the result; every way out of it
  goes through \<^verbatim>\<open>engine.dispose()\<close>.\<close>

definition save ::
  "(faults \<Rightarrow> ('r, 'q) world \<Rightarrow> bool \<times> ('r, 'q) world) \<Rightarrow> faults \<Rightarrow> string \<Rightarrow> 'r list
     \<Rightarrow> ('r, 'q) world \<Rightarrow> ('r, 'q) world" where
  "save create fl name df w =
     (case create fl w of
        (False, w1) \<Rightarrow> dispose w1
      | (True, w1) \<Rightarrow>
          if insert_fails fl then dispose (say w1 MsgSaveError)
          else
            let w2 = say (w1\<lparr>tables := to_sql name df (tables w1)\<rparr>) (MsgDone (length df)) in
            if verify_fails fl then dispose (say w2 MsgSaveError)
            else
              dispose (say (say w2 MsgStructure)
                (MsgCount (case tables w2 name of None \<Rightarrow> 0 | Some rows \<Rightarrow> length rows))))"

text \<open>Lines 40-66 of \<^verbatim>\<open>load_countries.py\<close>, the same in the three programs: the settings
  are checked, then the engine is created and probed with \<^verbatim>\<open>SELECT 1\<close>.\<close>

definition connect :: "'a env \<Rightarrow> ('r, 'q) world \<Rightarrow> bool \<times> ('r, 'q) world" where
  "connect e w =
     (if missing_vars (getenv e) \<noteq> [] then (False, say w (MsgMissingVars (missing_vars (getenv e))))
      else if \<not> connect_ok e then (False, say w MsgConnectError)
      else (True, say (say (w\<lparr>engine := Live\<rparr>) MsgConnected) MsgLoading))"

definition new_collector :: "('r, 'q) collector" where
  "new_collector = \<lparr>acc = [], requests = [], printed = []\<rparr>"

definition collected :: "('r, 'q) world \<Rightarrow> ('r, 'q) collector \<Rightarrow> ('r, 'q) world" where
  "collected w c = w\<lparr>stdout := stdout w @ printed c, fetched := fetched w @ requests c\<rparr>"

definition main_countries ::
  "(nat \<Rightarrow> error + json) env \<Rightarrow> float_reader \<Rightarrow> (country_row, nat) world
     \<Rightarrow> (outcome \<times> (country_row, nat) world) option" where
  "main_countries e to_float w0 =
     (case connect e (say w0 MsgStart) of
        (False, w1) \<Rightarrow> Some (Returned, w1)
      | (True, w1) \<Rightarrow>
          (case collect_pages map_country (api e) 1 new_collector of
             None \<Rightarrow> None
           | Some (Some err, c) \<Rightarrow> Some (Returned, say (collected w1 c) (MsgFetchError err))
           | Some (None, c) \<Rightarrow>
               let w2 = collected w1 c; all_countries = acc c in
               if all_countries = [] then Some (Returned, say w2 MsgNoData)
               else
                 let df_final = transform_countries to_float all_countries;
                     w3 = say (say (say (say w2 (MsgTotal (length all_countries)))
                            (MsgAfterFilter (length df_final)))
                            (MsgDeleted (length all_countries - length df_final))) MsgSaving
                 in Some (Returned,
                      save create_countries_table (db e) ''worldbank_countries'' df_final w3)))"

definition main_indicators ::
  "(nat \<Rightarrow> error + json) env \<Rightarrow> (indicator_row, nat) world
     \<Rightarrow> (outcome \<times> (indicator_row, nat) world) option" where
  "main_indicators e w0 =
     (case connect e w0 of
        (False, w1) \<Rightarrow> Some (Returned, w1)
      | (True, w1) \<Rightarrow>
          (case collect_pages map_indicator (api e) 1 new_collector of
             None \<Rightarrow> None
           | Some (Some err, c) \<Rightarrow> Some (Returned, say (collected w1 c) (MsgFetchError err))
           | Some (None, c) \<Rightarrow>
               let w2 = collected w1 c; all_indicators = acc c in
               if all_indicators = [] then Some (Returned, say w2 MsgNoData)
               else
                 let w3 = say w2 (MsgTotal (length all_indicators));
                     df = drop_duplicates (dedup_other e) all_indicators
                 in Some (Returned,
                      save create_indicators_table (db e) ''worldbank_indicators'' df
                        (say (say w3 (MsgAfterDedup (length df))) MsgSaving))))"

definition main_values ::
  "(string \<Rightarrow> nat \<Rightarrow> error + json) env \<Rightarrow> int_reader \<Rightarrow> (value_row, string \<times> nat) world
     \<Rightarrow> (outcome \<times> (value_row, string \<times> nat) world) option" where
  "main_values e to_int w0 =
     (case connect e w0 of
        (False, w1) \<Rightarrow> Some (Returned, w1)
      | (True, w1) \<Rightarrow>
          (case collect_values (api e) indicators new_collector of
             None \<Rightarrow> None
           | Some (Some err, c) \<Rightarrow> Some (Returned, say (collected w1 c) (MsgFetchError err))
           | Some (None, c) \<Rightarrow>
               let w2 = collected w1 c; all_data = acc c in
               if all_data = [] then Some (Returned, say w2 MsgNoData)
               else
                 let w3 = say w2 (MsgTotal (length all_data)) in
                 (case year_astype_int64 to_int all_data of
                    Inl err \<Rightarrow> Some (Crashed err, w3)
                  | Inr df \<Rightarrow>
                      Some (Returned,
                        save create_values_table (db e) ''worldbank_values'' df
                          (say w3 MsgSaving)))))"

section \<open>Retained observations\<close>

text \<open>The records of a response that the loop of \<^verbatim>\<open>load_values.py\<close> iterates over
  (\<^verbatim>\<open>for item in page_data\<close>, with \<^verbatim>\<open>page_data = data[1]\<close>), and the test of line 115 that
  decides whether a record is retained.\<close>

definition page_items :: "error + json \<Rightarrow> json list" where
  "page_items response =
     (case response of
        Inl e \<Rightarrow> []
      | Inr data \<Rightarrow>
          (case subscript_index data 1 of
             Inl e \<Rightarrow> []
           | Inr page_data \<Rightarrow>
               (case py_iter page_data of Inl e \<Rightarrow> [] | Inr items \<Rightarrow> items)))"

definition retained :: "json \<Rightarrow> bool" where
  "retained item = (case dict_get item ''value'' JNull of Inl e \<Rightarrow> False | Inr v \<Rightarrow> v \<noteq> JNull)"

text \<open>How a state \<open>s\<close> of the collection of observations relates to an earlier state
  \<open>st\<close>: rows with a value stay rows with a value, requests are only added, and (when
  no exception was raised in between, \<open>ok\<close>) the rows added are the mapped retained
  records of the pages requested in between.\<close>

definition value_inv ::
  "(string \<Rightarrow> nat \<Rightarrow> error + json) \<Rightarrow> (value_row, string \<times> nat) collector \<Rightarrow> bool
     \<Rightarrow> (value_row, string \<times> nat) collector \<Rightarrow> bool" where
  "value_inv resp st ok s =
     ((list_all (\<lambda>r. obs_value r \<noteq> JNull) (acc st) \<longrightarrow> list_all (\<lambda>r. obs_value r \<noteq> JNull) (acc s))
      \<and> (\<exists>qs. requests s = requests st @ qs
            \<and> (ok \<longrightarrow> map Inr (acc s) = map Inr (acc st)
                  @ map map_value (concat (map (\<lambda>q. filter retained (page_items (resp (fst q) (snd q)))) qs)))))"

section \<open>Sample inputs\<close>

text \<open>Concrete records and API behaviours on which the properties below are evaluated.\<close>

definition sample_country :: json where
  "sample_country =
     JObj [(''id'', JStr ''FRA''), (''iso2Code'', JStr ''FR''), (''name'', JStr ''France''),
           (''region'', JObj [(''id'', JStr ''ECS''), (''value'', JStr ''Europe & Central Asia'')]),
           (''incomeLevel'', JObj [(''id'', JStr ''HIC''), (''value'', JStr ''High income'')]),
           (''capitalCity'', JStr ''Paris''), (''longitude'', JStr ''2.35097''),
           (''latitude'', JStr ''48.8566'')]"

definition sample_observation :: json where
  "sample_observation =
     JObj [(''countryiso3code'', JStr ''FRA''),
           (''country'', JObj [(''id'', JStr ''FR''), (''value'', JStr ''France'')]),
           (''indicator'', JObj [(''id'', JStr ''SP.POP.TOTL''), (''value'', JStr ''Population, total'')]),
           (''date'', JStr ''2020''), (''value'', JNum 67571107)]"

text \<open>An API with two pages of one country each.\<close>

definition two_pages_api :: "nat \<Rightarrow> error + json" where
  "two_pages_api page = Inr (JArr [JObj [(''page'', JNum (of_nat page)), (''pages'', JNum 2)], JArr [sample_country]])"

definition two_pages_values_api :: "string \<Rightarrow> nat \<Rightarrow> error + json" where
  "two_pages_values_api indicator page =
     Inr (JArr [JObj [(''page'', JNum (of_nat page)), (''pages'', JNum 2)], JArr [sample_observation]])"

text \<open>An API whose metadata announces zero pages next to a page of records.\<close>

definition zero_pages_api :: "nat \<Rightarrow> error + json" where
  "zero_pages_api page = Inr (JArr [JObj [(''pages'', JNum 0)], JArr [sample_country]])"

text \<open>An observation as \<^verbatim>\<open>sample_observation\<close>, without its \<^verbatim>\<open>country\<close> sub-object.\<close>

definition observation_without_country :: json where
  "observation_without_country =
     JObj [(''countryiso3code'', JStr ''FRA''),
           (''indicator'', JObj [(''id'', JStr ''SP.POP.TOTL''), (''value'', JStr ''Population, total'')]),
           (''date'', JStr ''2020''), (''value'', JNum 67571107)]"

text \<open>An observation whose \<^verbatim>\<open>date\<close> is not a number.\<close>

definition observation_bad_date :: json where
  "observation_bad_date =
     JObj [(''countryiso3code'', JStr ''FRA''),
           (''country'', JObj [(''id'', JStr ''FR''), (''value'', JStr ''France'')]),
           (''indicator'', JObj [(''id'', JStr ''SP.POP.TOTL''), (''value'', JStr ''Population, total'')]),
           (''date'', JStr ''MRV''), (''value'', JNum 67571107)]"

text \<open>An environment with every setting present, a reachable store without faults, and
  an API that answers every request with an HTTP error.\<close>

definition all_settings :: "string \<Rightarrow> string option" where
  "all_settings var = Some ''set''"

definition no_faults :: faults where
  "no_faults = \<lparr>begin_fails = False, drop_fails = False, create_fails = False,
                 commit_fails = False, insert_fails = False, verify_fails = False\<rparr>"

definition failing_api :: "nat \<Rightarrow> error + json" where
  "failing_api page = Inl RequestError"

definition fetch_error_env :: "(nat \<Rightarrow> error + json) env" where
  "fetch_error_env = \<lparr>getenv = all_settings, connect_ok = True, api = failing_api, db = no_faults,
       dedup_other = (\<lambda>df. df)\<rparr>"

definition empty_world :: "('r, 'q) world" where
  "empty_world = \<lparr>tables = (\<lambda>name. None), engine = NoEngine, stdout = [], fetched = []\<rparr>"

text \<open>Readers that know the strings of the samples; outside the columns described they
  answer with null, and with an exception.\<close>

definition sample_read_float :: "string \<Rightarrow> parsed" where
  "sample_read_float s =
     (if s = ''2.35097'' then Number (235097 / 100000)
      else if s = ''48.8566'' then Number (488566 / 10000)
      else NotNumber)"

definition sample_to_float :: float_reader where
  "sample_to_float = \<lparr>read_float = sample_read_float, other_floats = (\<lambda>column i. JNull)\<rparr>"

definition sample_read_int :: "string \<Rightarrow> error + int" where
  "sample_read_int s =
     (if s = ''2020'' then Inr 2020 else if s = ''2021'' then Inr 2021 else Inl ValueError)"

definition sample_to_int :: int_reader where
  "sample_to_int = \<lparr>read_int = sample_read_int, other_ints = (\<lambda>column i. Inl TypeError)\<rparr>"

text \<open>Country rows: France as mapped from \<^verbatim>\<open>sample_country\<close>, an aggregate, and France
  with a longitude that is not a number.\<close>

definition france_row :: country_row where
  "france_row =
     \<lparr>country_id = JStr ''FRA'', iso2_code = JStr ''FR'', country_name = JStr ''France'',
      region_id = JStr ''ECS'', region_name = JStr ''Europe & Central Asia'',
      income_level_id = JStr ''HIC'', income_level_name = JStr ''High income'',
      capital_city = JStr ''Paris'', longitude = JStr ''2.35097'', latitude = JStr ''48.8566''\<rparr>"

definition aggregate_row :: country_row where
  "aggregate_row =
     \<lparr>country_id = JStr ''AFE'', iso2_code = JStr ''ZH'',
      country_name = JStr ''Africa Eastern and Southern'',
      region_id = JStr ''NA'', region_name = JStr ''Aggregates'',
      income_level_id = JStr ''NA'', income_level_name = JStr ''Aggregates'',
      capital_city = JStr [], longitude = JStr [], latitude = JStr []\<rparr>"


text \<open>A store that already holds a countries table, and a store that refuses
  \<^verbatim>\<open>CREATE TABLE\<close>.\<close>

definition stocked_world :: "(country_row, nat) world" where
  "stocked_world =
     \<lparr>tables = (\<lambda>name. if name = ''worldbank_countries'' then Some [france_row] else None),
      engine = Live, stdout = [], fetched = []\<rparr>"

definition create_fault :: faults where
  "create_fault = no_faults\<lparr>create_fails := True\<rparr>"




text \<open>Observation rows as collected: with the year 2020, and with a date that is no
  year.\<close>

definition row_2020 :: value_row where
  "row_2020 =
     \<lparr>obs_country_id = JStr ''FRA'', obs_country = JStr ''France'',
      obs_indicator_id = JStr ''SP.POP.TOTL'', obs_indicator = JStr ''Population, total'',
      obs_year = JStr ''2020'', obs_value = JNum 67571107\<rparr>"

definition row_bad_date :: value_row where
  "row_bad_date = row_2020\<lparr>obs_year := JStr ''MRV''\<rparr>"

text \<open>An API that holds, for every indicator, one page with the observation whose date
  is not a number; and one whose only page is empty.\<close>

definition bad_date_api :: "string \<Rightarrow> nat \<Rightarrow> error + json" where
  "bad_date_api indicator page = Inr (JArr [JObj [(''pages'', JNum 1)], JArr [observation_bad_date]])"

definition bad_date_env :: "(string \<Rightarrow> nat \<Rightarrow> error + json) env" where
  "bad_date_env = \<lparr>getenv = all_settings, connect_ok = True, api = bad_date_api, db = no_faults,
       dedup_other = (\<lambda>df. df)\<rparr>"

definition empty_api :: "nat \<Rightarrow> error + json" where
  "empty_api page = Inr (JArr [JObj [(''page'', JNum 0), (''pages'', JNum 0)], JArr []])"

definition empty_env :: "(nat \<Rightarrow> error + json) env" where
  "empty_env = \<lparr>getenv = all_settings, connect_ok = True, api = empty_api, db = no_faults,
       dedup_other = (\<lambda>df. df)\<rparr>"

definition empty_values_api :: "string \<Rightarrow> nat \<Rightarrow> error + json" where
  "empty_values_api indicator page = Inr (JArr [JObj [(''page'', JNum 0), (''pages'', JNum 0)], JNull])"

definition empty_values_env :: "(string \<Rightarrow> nat \<Rightarrow> error + json) env" where
  "empty_values_env = \<lparr>getenv = all_settings, connect_ok = True, api = empty_values_api, db = no_faults,
       dedup_other = (\<lambda>df. df)\<rparr>"

text \<open>A store that already holds a table of observations.\<close>

definition stocked_values_world :: "(value_row, string \<times> nat) world" where
  "stocked_values_world =
     \<lparr>tables = (\<lambda>name. if name = ''worldbank_values'' then Some [row_2020] else None),
      engine = NoEngine, stdout = [], fetched = []\<rparr>"

text \<open>An API with, for every indicator, one page that holds the same observation twice
  and an observation without value.\<close>

definition observation_without_value :: json where
  "observation_without_value =
     JObj [(''countryiso3code'', JStr ''FRA''),
           (''country'', JObj [(''id'', JStr ''FR''), (''value'', JStr ''France'')]),
           (''indicator'', JObj [(''id'', JStr ''SP.POP.TOTL''), (''value'', JStr ''Population, total'')]),
           (''date'', JStr ''2021''), (''value'', JNull)]"

definition repeating_api :: "string \<Rightarrow> nat \<Rightarrow> error + json" where
  "repeating_api indicator page =
     Inr (JArr [JObj [(''pages'', JNum 1)],
                JArr [sample_observation, observation_without_value, sample_observation]])"











section \<open>Properties\<close>

subsection \<open>Pagination\<close>

lemma ebind_simps [simp]:
  "ebind (Inl e) f = Inl e"
  "ebind (Inr x) f = f x"
  by (simp_all add: ebind_def)

lemma append_mapped_ok:
  "\<forall>x\<in>set items. \<exists>r. f x = Inr r \<Longrightarrow>
   \<exists>rows. append_mapped f items a = (None, a @ rows) \<and> map f items = map Inr rows"
proof (induction items arbitrary: a)
  case Nil
  then show ?case by simp
next
  case (Cons x xs)
  then obtain r where r: "f x = Inr r" by auto
  from Cons obtain rows where
    "append_mapped f xs (a @ [r]) = (None, (a @ [r]) @ rows)" "map f xs = map Inr rows"
    by fastforce
  then show ?case using r by (intro exI[of _ "r # rows"]) simp
qed

lemma page_step_full:
  assumes "resp page = Inr (JArr [JObj meta, JArr recs])" "recs \<noteq> []"
    and "\<forall>x\<in>set recs. \<exists>r. f x = Inr r"
    and "(case map_of meta ''pages'' of None \<Rightarrow> JNum 1 | Some v \<Rightarrow> v) = JNum (of_nat p)"
  shows "\<exists>s. page_step f resp page st = (if p \<le> page then Stop s else Next s)
           \<and> requests s = requests st @ [page]"
proof -
  obtain rows where "append_mapped f recs (acc st) = (None, acc st @ rows)"
    using append_mapped_ok[OF assms(3)] by blast
  then show ?thesis using assms(1,2,4)
    by (simp add: page_step_def Let_def)
qed

lemma collect_pages_full:
  assumes pg: "\<And>k. page \<le> k \<Longrightarrow> k \<le> p \<Longrightarrow>
      \<exists>meta recs. resp k = Inr (JArr [JObj meta, JArr recs]) \<and> recs \<noteq> []
        \<and> (\<forall>x\<in>set recs. \<exists>r. f x = Inr r)
        \<and> (case map_of meta ''pages'' of None \<Rightarrow> JNum 1 | Some v \<Rightarrow> v) = JNum (of_nat p)"
    and "page \<le> p"
  shows "\<exists>c. collect_pages f resp page st = Some (None, c) \<and> requests c = requests st @ [page..<Suc p]"
  using assms
proof (induction "p - page" arbitrary: page st)
  case 0
  then have "page = p" by simp
  from 0(2)[of page] 0(3) obtain meta recs where
    "resp page = Inr (JArr [JObj meta, JArr recs])" "recs \<noteq> []" "\<forall>x\<in>set recs. \<exists>r. f x = Inr r"
    "(case map_of meta ''pages'' of None \<Rightarrow> JNum 1 | Some v \<Rightarrow> v) = JNum (of_nat p)"
    by auto
  from page_step_full[where resp=resp and page=page and st=st, OF this] obtain s where
    "page_step f resp page st = Stop s" "requests s = requests st @ [page]"
    using \<open>page = p\<close> by auto
  then show ?case using \<open>page = p\<close>
    by (subst collect_pages.simps) simp
next
  case (Suc n)
  then have lt: "page < p" by simp
  from Suc(3)[of page] lt obtain meta recs where
    "resp page = Inr (JArr [JObj meta, JArr recs])" "recs \<noteq> []" "\<forall>x\<in>set recs. \<exists>r. f x = Inr r"
    "(case map_of meta ''pages'' of None \<Rightarrow> JNum 1 | Some v \<Rightarrow> v) = JNum (of_nat p)"
    by auto
  from page_step_full[where resp=resp and page=page and st=st, OF this] obtain s where
    s: "page_step f resp page st = Next s" "requests s = requests st @ [page]"
    using lt by auto
  have "n = p - Suc page" using Suc(2) by simp
  moreover have "\<And>k. Suc page \<le> k \<Longrightarrow> k \<le> p \<Longrightarrow>
      \<exists>meta recs. resp k = Inr (JArr [JObj meta, JArr recs]) \<and> recs \<noteq> []
        \<and> (\<forall>x\<in>set recs. \<exists>r. f x = Inr r)
        \<and> (case map_of meta ''pages'' of None \<Rightarrow> JNum 1 | Some v \<Rightarrow> v) = JNum (of_nat p)"
    using Suc(3) by simp
  moreover have "Suc page \<le> p" using lt by simp
  ultimately obtain c where
    "collect_pages f resp (Suc page) s = Some (None, c)" "requests c = requests s @ [Suc page..<Suc p]"
    using Suc(1)[of "Suc page" s] by blast
  then show ?case using s lt
    by (subst collect_pages.simps) (simp add: upt_conv_Cons)
qed

lemma append_values_ok:
  "\<forall>x\<in>set items. \<exists>v. dict_get x ''value'' JNull = Inr v \<and> (v \<noteq> JNull \<longrightarrow> (\<exists>r. map_value x = Inr r)) \<Longrightarrow>
   \<exists>rows. append_values items a = (None, a @ rows)"
proof (induction items arbitrary: a)
  case Nil
  then show ?case by simp
next
  case (Cons x xs)
  then obtain v where v: "dict_get x ''value'' JNull = Inr v" "v \<noteq> JNull \<longrightarrow> (\<exists>r. map_value x = Inr r)"
    by auto
  have rest: "\<And>b. \<exists>rows. append_values xs b = (None, b @ rows)"
    using Cons by simp
  show ?case
  proof (cases "v = JNull")
    case True
    then show ?thesis using v rest[of a] by simp
  next
    case False
    then obtain r where r: "map_value x = Inr r" using v by blast
    from rest[of "a @ [r]"] obtain rows where "append_values xs (a @ [r]) = (None, (a @ [r]) @ rows)"
      by blast
    then show ?thesis using v r False by (intro exI[of _ "r # rows"]) simp
  qed
qed

lemma value_step_full:
  assumes "resp indicator page = Inr (JArr [JObj meta, JArr recs])" "recs \<noteq> []"
    and "\<forall>x\<in>set recs. \<exists>v. dict_get x ''value'' JNull = Inr v \<and> (v \<noteq> JNull \<longrightarrow> (\<exists>r. map_value x = Inr r))"
    and "(case map_of meta ''pages'' of None \<Rightarrow> JNum 1 | Some v \<Rightarrow> v) = JNum (of_nat p)"
  shows "\<exists>s. value_step resp indicator page st = (if p \<le> page then Stop s else Next s)
           \<and> requests s = requests st @ [(indicator, page)]"
proof -
  obtain rows where "append_values recs (acc st) = (None, acc st @ rows)"
    using append_values_ok[OF assms(3)] by blast
  then show ?thesis using assms(1,2,4)
    by (cases "p \<le> page") (simp_all add: value_step_def Let_def)
qed

lemma collect_indicator_full:
  assumes pg: "\<And>k. page \<le> k \<Longrightarrow> k \<le> p \<Longrightarrow>
      \<exists>meta recs. resp indicator k = Inr (JArr [JObj meta, JArr recs]) \<and> recs \<noteq> []
        \<and> (\<forall>x\<in>set recs. \<exists>v. dict_get x ''value'' JNull = Inr v \<and> (v \<noteq> JNull \<longrightarrow> (\<exists>r. map_value x = Inr r)))
        \<and> (case map_of meta ''pages'' of None \<Rightarrow> JNum 1 | Some v \<Rightarrow> v) = JNum (of_nat p)"
    and "page \<le> p"
  shows "\<exists>c. collect_indicator resp indicator page st = Some (None, c)
           \<and> requests c = requests st @ map (Pair indicator) [page..<Suc p]"
  using assms
proof (induction "p - page" arbitrary: page st)
  case 0
  then have "page = p" by simp
  from 0(2)[of page] 0(3) obtain meta recs where
    "resp indicator page = Inr (JArr [JObj meta, JArr recs])" "recs \<noteq> []"
    "\<forall>x\<in>set recs. \<exists>v. dict_get x ''value'' JNull = Inr v \<and> (v \<noteq> JNull \<longrightarrow> (\<exists>r. map_value x = Inr r))"
    "(case map_of meta ''pages'' of None \<Rightarrow> JNum 1 | Some v \<Rightarrow> v) = JNum (of_nat p)"
    by auto
  from value_step_full[where resp=resp and page=page and st=st, OF this] obtain s where
    "value_step resp indicator page st = Stop s" "requests s = requests st @ [(indicator, page)]"
    using \<open>page = p\<close> by auto
  then show ?case using \<open>page = p\<close>
    by (subst collect_indicator.simps) simp
next
  case (Suc n)
  then have lt: "page < p" by simp
  from Suc(3)[of page] lt obtain meta recs where
    "resp indicator page = Inr (JArr [JObj meta, JArr recs])" "recs \<noteq> []"
    "\<forall>x\<in>set recs. \<exists>v. dict_get x ''value'' JNull = Inr v \<and> (v \<noteq> JNull \<longrightarrow> (\<exists>r. map_value x = Inr r))"
    "(case map_of meta ''pages'' of None \<Rightarrow> JNum 1 | Some v \<Rightarrow> v) = JNum (of_nat p)"
    by auto
  from value_step_full[where resp=resp and page=page and st=st, OF this] obtain s where
    s: "value_step resp indicator page st = Next s" "requests s = requests st @ [(indicator, page)]"
    using lt by auto
  have "n = p - Suc page" using Suc(2) by simp
  moreover have "\<And>k. Suc page \<le> k \<Longrightarrow> k \<le> p \<Longrightarrow>
      \<exists>meta recs. resp indicator k = Inr (JArr [JObj meta, JArr recs]) \<and> recs \<noteq> []
        \<and> (\<forall>x\<in>set recs. \<exists>v. dict_get x ''value'' JNull = Inr v \<and> (v \<noteq> JNull \<longrightarrow> (\<exists>r. map_value x = Inr r)))
        \<and> (case map_of meta ''pages'' of None \<Rightarrow> JNum 1 | Some v \<Rightarrow> v) = JNum (of_nat p)"
    using Suc(3) by simp
  moreover have "Suc page \<le> p" using lt by simp
  ultimately obtain c where
    "collect_indicator resp indicator (Suc page) s = Some (None, c)"
    "requests c = requests s @ map (Pair indicator) [Suc page..<Suc p]"
    using Suc(1)[of "Suc page" s] by blast
  then show ?case using s lt
    by (subst collect_indicator.simps) (simp add: upt_conv_Cons)
qed

lemma map_country_sample:
  "map_country sample_country =
     Inr \<lparr>country_id = JStr ''FRA'', iso2_code = JStr ''FR'', country_name = JStr ''France'',
          region_id = JStr ''ECS'', region_name = JStr ''Europe & Central Asia'',
          income_level_id = JStr ''HIC'', income_level_name = JStr ''High income'',
          capital_city = JStr ''Paris'', longitude = JStr ''2.35097'', latitude = JStr ''48.8566''\<rparr>"
  by (simp add: map_country_def sample_country_def)

lemma map_value_sample:
  "map_value sample_observation =
     Inr \<lparr>obs_country_id = JStr ''FRA'', obs_country = JStr ''France'',
          obs_indicator_id = JStr ''SP.POP.TOTL'', obs_indicator = JStr ''Population, total'',
          obs_year = JStr ''2020'', obs_value = JNum 67571107\<rparr>"
  by (simp add: map_value_def sample_observation_def)

text \<open>
  Claim C3, as amended. Let \<open>p \<ge> 1\<close>, and let every page from 1 to \<open>p\<close> answer with a
  two-element list: a metadata dict whose \<^verbatim>\<open>pages\<close> is \<open>p\<close> (or is absent, with \<open>p = 1\<close>: an
  absent count is read as 1), and a non-empty list of records that the mapper accepts.
  Then the loop of \<^verbatim>\<open>load_countries.py\<close> and \<^verbatim>\<open>load_indicators.py\<close> ends normally
  after requesting exactly the pages \<open>1, \<dots>, p\<close>, in this order, and so does the inner loop
  of \<^verbatim>\<open>load_values.py\<close> for an indicator: no request for page \<open>p + 1\<close> is sent.
\<close>

theorem exactly_p_fetches:
  assumes "1 \<le> p"
  shows
    "((\<forall>k. 1 \<le> k \<and> k \<le> p \<longrightarrow>
         (\<exists>meta recs. resp k = Inr (JArr [JObj meta, JArr recs]) \<and> recs \<noteq> []
            \<and> (\<forall>x\<in>set recs. \<exists>r. f x = Inr r)
            \<and> (map_of meta ''pages'' = Some (JNum (of_nat p))
                 \<or> map_of meta ''pages'' = None \<and> p = 1)))
       \<longrightarrow> (\<exists>c. collect_pages f resp 1 st = Some (None, c)
                \<and> requests c = requests st @ [1..<Suc p]))
     \<and> ((\<forall>k. 1 \<le> k \<and> k \<le> p \<longrightarrow>
         (\<exists>meta recs. vresp indicator k = Inr (JArr [JObj meta, JArr recs]) \<and> recs \<noteq> []
            \<and> (\<forall>x\<in>set recs. \<exists>v. dict_get x ''value'' JNull = Inr v
                   \<and> (v \<noteq> JNull \<longrightarrow> (\<exists>r. map_value x = Inr r)))
            \<and> (map_of meta ''pages'' = Some (JNum (of_nat p))
                 \<or> map_of meta ''pages'' = None \<and> p = 1)))
       \<longrightarrow> (\<exists>c. collect_indicator vresp indicator 1 vst = Some (None, c)
                \<and> requests c = requests vst @ map (Pair indicator) [1..<Suc p]))"
proof (intro conjI impI)
  assume h: "\<forall>k. 1 \<le> k \<and> k \<le> p \<longrightarrow>
         (\<exists>meta recs. resp k = Inr (JArr [JObj meta, JArr recs]) \<and> recs \<noteq> []
            \<and> (\<forall>x\<in>set recs. \<exists>r. f x = Inr r)
            \<and> (map_of meta ''pages'' = Some (JNum (of_nat p))
                 \<or> map_of meta ''pages'' = None \<and> p = 1))"
  have "\<And>k. 1 \<le> k \<Longrightarrow> k \<le> p \<Longrightarrow>
      \<exists>meta recs. resp k = Inr (JArr [JObj meta, JArr recs]) \<and> recs \<noteq> []
        \<and> (\<forall>x\<in>set recs. \<exists>r. f x = Inr r)
        \<and> (case map_of meta ''pages'' of None \<Rightarrow> JNum 1 | Some v \<Rightarrow> v) = JNum (of_nat p)"
  proof -
    fix k assume "1 \<le> k" "k \<le> p"
    with h obtain meta recs where m: "resp k = Inr (JArr [JObj meta, JArr recs])" "recs \<noteq> []"
      "\<forall>x\<in>set recs. \<exists>r. f x = Inr r"
      "map_of meta ''pages'' = Some (JNum (of_nat p)) \<or> map_of meta ''pages'' = None \<and> p = 1"
      by blast
    from m(4) have "(case map_of meta ''pages'' of None \<Rightarrow> JNum 1 | Some v \<Rightarrow> v) = JNum (of_nat p)"
      by auto
    with m(1-3) show "\<exists>meta recs. resp k = Inr (JArr [JObj meta, JArr recs]) \<and> recs \<noteq> []
        \<and> (\<forall>x\<in>set recs. \<exists>r. f x = Inr r)
        \<and> (case map_of meta ''pages'' of None \<Rightarrow> JNum 1 | Some v \<Rightarrow> v) = JNum (of_nat p)"
      by blast
  qed
  from collect_pages_full[of 1 p resp f st, OF this assms]
  show "\<exists>c. collect_pages f resp 1 st = Some (None, c) \<and> requests c = requests st @ [1..<Suc p]"
    by simp
next
  assume h: "\<forall>k. 1 \<le> k \<and> k \<le> p \<longrightarrow>
         (\<exists>meta recs. vresp indicator k = Inr (JArr [JObj meta, JArr recs]) \<and> recs \<noteq> []
            \<and> (\<forall>x\<in>set recs. \<exists>v. dict_get x ''value'' JNull = Inr v
                   \<and> (v \<noteq> JNull \<longrightarrow> (\<exists>r. map_value x = Inr r)))
            \<and> (map_of meta ''pages'' = Some (JNum (of_nat p))
                 \<or> map_of meta ''pages'' = None \<and> p = 1))"
  have "\<And>k. 1 \<le> k \<Longrightarrow> k \<le> p \<Longrightarrow>
      \<exists>meta recs. vresp indicator k = Inr (JArr [JObj meta, JArr recs]) \<and> recs \<noteq> []
        \<and> (\<forall>x\<in>set recs. \<exists>v. dict_get x ''value'' JNull = Inr v
                   \<and> (v \<noteq> JNull \<longrightarrow> (\<exists>r. map_value x = Inr r)))
        \<and> (case map_of meta ''pages'' of None \<Rightarrow> JNum 1 | Some v \<Rightarrow> v) = JNum (of_nat p)"
  proof -
    fix k assume "1 \<le> k" "k \<le> p"
    with h obtain meta recs where m: "vresp indicator k = Inr (JArr [JObj meta, JArr recs])" "recs \<noteq> []"
      "\<forall>x\<in>set recs. \<exists>v. dict_get x ''value'' JNull = Inr v
                   \<and> (v \<noteq> JNull \<longrightarrow> (\<exists>r. map_value x = Inr r))"
      "map_of meta ''pages'' = Some (JNum (of_nat p)) \<or> map_of meta ''pages'' = None \<and> p = 1"
      by blast
    from m(4) have "(case map_of meta ''pages'' of None \<Rightarrow> JNum 1 | Some v \<Rightarrow> v) = JNum (of_nat p)"
      by auto
    with m(1-3) show "\<exists>meta recs. vresp indicator k = Inr (JArr [JObj meta, JArr recs]) \<and> recs \<noteq> []
        \<and> (\<forall>x\<in>set recs. \<exists>v. dict_get x ''value'' JNull = Inr v
                   \<and> (v \<noteq> JNull \<longrightarrow> (\<exists>r. map_value x = Inr r)))
        \<and> (case map_of meta ''pages'' of None \<Rightarrow> JNum 1 | Some v \<Rightarrow> v) = JNum (of_nat p)"
      by blast
  qed
  from collect_indicator_full[of 1 p vresp indicator vst, OF this assms]
  show "\<exists>c. collect_indicator vresp indicator 1 vst = Some (None, c)
          \<and> requests c = requests vst @ map (Pair indicator) [1..<Suc p]"
    by simp
qed

text \<open>Witness for C3: two pages of one record each, for both loops.\<close>

theorem exactly_p_fetches_witness:
  "(1::nat) \<le> 2
   \<and> (\<exists>c. collect_pages map_country two_pages_api 1 new_collector = Some (None, c)
         \<and> requests c = [1, 2])
   \<and> (\<exists>c. collect_indicator two_pages_values_api ''SP.POP.TOTL'' 1 new_collector = Some (None, c)
         \<and> requests c = [(''SP.POP.TOTL'', 1), (''SP.POP.TOTL'', 2)])"
proof -
  have p: "(1::nat) \<le> 2" by simp
  have h1: "\<forall>k. 1 \<le> k \<and> k \<le> (2::nat) \<longrightarrow>
         (\<exists>meta recs. two_pages_api k = Inr (JArr [JObj meta, JArr recs]) \<and> recs \<noteq> []
            \<and> (\<forall>x\<in>set recs. \<exists>r. map_country x = Inr r)
            \<and> (map_of meta ''pages'' = Some (JNum (of_nat 2))
                 \<or> map_of meta ''pages'' = None \<and> (2::nat) = 1))"
    by (simp add: two_pages_api_def map_country_sample)
  have h2: "\<forall>k. 1 \<le> k \<and> k \<le> (2::nat) \<longrightarrow>
         (\<exists>meta recs. two_pages_values_api ''SP.POP.TOTL'' k = Inr (JArr [JObj meta, JArr recs]) \<and> recs \<noteq> []
            \<and> (\<forall>x\<in>set recs. \<exists>v. dict_get x ''value'' JNull = Inr v
                   \<and> (v \<noteq> JNull \<longrightarrow> (\<exists>r. map_value x = Inr r)))
            \<and> (map_of meta ''pages'' = Some (JNum (of_nat 2))
                 \<or> map_of meta ''pages'' = None \<and> (2::nat) = 1))"
    by (simp add: two_pages_values_api_def map_value_sample) (simp add: sample_observation_def)
  have u: "[Suc 0..<3] = [Suc 0, 2]" by code_simp
  from exactly_p_fetches[OF p, of two_pages_api map_country new_collector
      two_pages_values_api "''SP.POP.TOTL''" new_collector] h1 h2
  show ?thesis by (simp add: new_collector_def u)
qed

text \<open>
  Counterexample for C3 as stated, at \<open>p = 0\<close>: every page carries a record and announces
  zero pages. The loop asks for the page before it looks at the count, so it sends one
  request, for page 1, where the claim counts none.
\<close>

theorem zero_pages_counterexample:
  "map_option (requests \<circ> snd) (collect_pages map_country zero_pages_api 1 new_collector)
     = Some [1]"
  by (subst collect_pages.simps)
     (simp add: page_step_def zero_pages_api_def map_country_sample new_collector_def)

subsection \<open>Record mapping\<close>

lemma get_topic_field_never_raises:
  "\<exists>v. get_topic_field (JObj kvs) field = Inr v"
  by (auto simp: get_topic_field_def is_dict_def split: json.splits list.splits)

lemma get_topic_field_absent:
  "map_of kvs ''topics'' = None \<or> map_of kvs ''topics'' = Some (JArr [])
     \<Longrightarrow> get_topic_field (JObj kvs) field = Inr JNull"
  by (auto simp: get_topic_field_def)

lemma map_country_absent_subobjects:
  assumes "map_of kvs ''region'' = None" "map_of kvs ''incomeLevel'' = None"
  shows "\<exists>r. map_country (JObj kvs) = Inr r \<and> region_id r = JNull \<and> region_name r = JNull
           \<and> income_level_id r = JNull \<and> income_level_name r = JNull"
  using assms by (simp add: map_country_def)

lemma map_indicator_absent_subobjects:
  assumes "map_of kvs ''source'' = None"
  shows "\<exists>r. map_indicator (JObj kvs) = Inr r \<and> source_id r = JNull \<and> source_name r = JNull"
proof -
  obtain v1 v2 where "get_topic_field (JObj kvs) ''id'' = Inr v1" "get_topic_field (JObj kvs) ''value'' = Inr v2"
    using get_topic_field_never_raises by blast
  then show ?thesis using assms by (simp add: map_indicator_def)
qed

lemma map_country_null_region_raises:
  "map_of kvs ''region'' = Some JNull \<Longrightarrow> map_country (JObj kvs) = Inl AttributeError"
  by (simp add: map_country_def)

text \<open>
  Claim C1 asks that mapping a raw record never raises and that an absent sub-object
  gives null. The country and indicator mappers do so for a record without its
  sub-objects (the lemmas above). The observation mapper subscripts instead: on a record
  with a value and without its \<^verbatim>\<open>country\<close> sub-object it raises KeyError, and the loop
  over the page ends with that exception.
\<close>

theorem record_without_country_raises:
  "map_value observation_without_country = Inl KeyError
   \<and> append_values [observation_without_country] [] = (Some KeyError, [])"
  by (simp add: map_value_def observation_without_country_def)

subsection \<open>Releasing the connection\<close>

lemma save_disposes: "engine (save create fl name df w) = Disposed"
  by (simp add: save_def dispose_def Let_def split: prod.splits bool.splits)

lemma connect_engine:
  "engine (snd (connect e w)) = (if fst (connect e w) then Live else engine w)"
  by (simp add: connect_def say_def)

text \<open>
  Claim C2 asks that the engine is disposed on every return after the connection was
  established. Here the settings are present, the store answers the probe, and the
  first request to the API fails: \<^verbatim>\<open>main\<close> of \<^verbatim>\<open>load_countries.py\<close> returns from the
  handler of line 108 with the engine still live.
\<close>

theorem fetch_error_leaves_engine_live:
  "map_option (engine \<circ> snd) (main_countries fetch_error_env sample_to_float empty_world) = Some Live"
  by (simp add: main_countries_def fetch_error_env_def connect_def missing_vars_def required_vars_def
      all_settings_def say_def collect_pages.simps page_step_def failing_api_def collected_def
      empty_world_def new_collector_def)

subsection \<open>Schema replacement and the transformations\<close>

lemma create_table_tables:
  "tables (snd (create_table fl name w)) =
     (if fst (create_table fl name w) then (tables w)(name := Some []) else tables w)"
  by (simp add: create_table_def engine_begin_def execute_drop_def execute_create_def commit_def
      rollback_def say_def Let_def)

lemma mask_filter: "map fst (filter snd (zip xs (map P xs))) = filter P xs"
  by (induction xs) auto

lemma filter_aggregates_eq:
  "filter_aggregates df = filter (\<lambda>r. region_name r \<noteq> JStr ''Aggregates'') df"
  by (simp add: filter_aggregates_def mask_filter)

text \<open>
  Claim C5. \<^verbatim>\<open>create_countries_table\<close>, \<^verbatim>\<open>create_indicators_table\<close> and
  \<^verbatim>\<open>create_values_table\<close> leave the store in one of two states: when they return
  \<^verbatim>\<open>True\<close> the table was dropped and created empty, both in one commit; when they return
  \<^verbatim>\<open>False\<close> the tables are what they were before the call. In particular the table is
  missing afterwards only if it was missing before.
\<close>

theorem schema_replacement_atomic:
  "tables (snd (create_table fl name w)) =
     (if fst (create_table fl name w) then (tables w)(name := Some []) else tables w)
   \<and> (tables (snd (create_table fl name w)) name = None \<longrightarrow> tables w name = None)
   \<and> tables (snd (create_countries_table fl wc)) =
       (if fst (create_countries_table fl wc) then (tables wc)(''worldbank_countries'' := Some [])
        else tables wc)
   \<and> tables (snd (create_indicators_table fl wi)) =
       (if fst (create_indicators_table fl wi) then (tables wi)(''worldbank_indicators'' := Some [])
        else tables wi)
   \<and> tables (snd (create_values_table fl wv)) =
       (if fst (create_values_table fl wv) then (tables wv)(''worldbank_values'' := Some [])
        else tables wv)"
  by (simp add: create_table_tables create_countries_table_def create_indicators_table_def
      create_values_table_def)

text \<open>
  Witness for C5: on a store that holds the table with one row, the call without faults
  leaves the table empty, and the call whose \<^verbatim>\<open>CREATE TABLE\<close> fails leaves the row in
  place.
\<close>

theorem schema_replacement_atomic_witness:
  "fst (create_countries_table no_faults stocked_world)
   \<and> tables (snd (create_countries_table no_faults stocked_world)) ''worldbank_countries'' = Some []
   \<and> \<not> fst (create_countries_table create_fault stocked_world)
   \<and> tables (snd (create_countries_table create_fault stocked_world)) ''worldbank_countries''
       = Some [france_row]"
  using schema_replacement_atomic[of no_faults "''worldbank_countries''" stocked_world stocked_world]
    schema_replacement_atomic[of create_fault "''worldbank_countries''" stocked_world stocked_world]
  by (simp add: create_countries_table_def create_table_def engine_begin_def execute_drop_def
      execute_create_def commit_def rollback_def no_faults_def create_fault_def
      stocked_world_def say_def)


lemma length_to_numeric [simp]: "length (to_numeric to_float column) = length column"
  by (simp add: to_numeric_def)


lemma coerce_coordinates_nth:
  "coerce_coordinates to_float df =
     map (\<lambda>i. (df ! i)\<lparr>longitude := to_numeric to_float (map longitude df) ! i,
                       latitude := to_numeric to_float (map latitude df) ! i\<rparr>) [0..<length df]"
proof -
  let ?df1 = "map (\<lambda>(r, v). r\<lparr>longitude := v\<rparr>) (zip df (to_numeric to_float (map longitude df)))"
  have l1: "length ?df1 = length df" by simp
  have lat1: "map latitude ?df1 = map latitude df"
    by (rule nth_equalityI) simp_all
  show ?thesis
    unfolding coerce_coordinates_def Let_def lat1
    by (rule nth_equalityI) simp_all
qed

lemma length_coerce_coordinates [simp]: "length (coerce_coordinates to_float df) = length df"
  by (simp add: coerce_coordinates_nth)

lemma coerce_coordinates_blank:
  "map (\<lambda>r. r\<lparr>longitude := JNull, latitude := JNull\<rparr>) (coerce_coordinates to_float df) =
   map (\<lambda>r. r\<lparr>longitude := JNull, latitude := JNull\<rparr>) df"
  by (rule nth_equalityI) (simp_all add: coerce_coordinates_nth)

lemma coerce_coordinates_region:
  "map region_name (coerce_coordinates to_float df) = map region_name df"
  by (rule nth_equalityI) (simp_all add: coerce_coordinates_nth)


text \<open>
  Claim C8. The mask of line 121 keeps exactly the rows whose \<^verbatim>\<open>region_name\<close> differs from
  \<^verbatim>\<open>'Aggregates'\<close>, in their order; no row of the transformed frame has that region name,
  and the transformed frame is these rows with their coordinates coerced: apart from the
  two coordinates it is equal to them, row by row.
\<close>

theorem aggregates_filtered_out:
  "filter_aggregates df = filter (\<lambda>r. region_name r \<noteq> JStr ''Aggregates'') df
   \<and> (\<forall>r\<in>set (transform_countries to_float df). region_name r \<noteq> JStr ''Aggregates'')
   \<and> transform_countries to_float df =
       coerce_coordinates to_float (filter (\<lambda>r. region_name r \<noteq> JStr ''Aggregates'') df)
   \<and> map (\<lambda>r. r\<lparr>longitude := JNull, latitude := JNull\<rparr>) (transform_countries to_float df) =
       map (\<lambda>r. r\<lparr>longitude := JNull, latitude := JNull\<rparr>)
         (filter (\<lambda>r. region_name r \<noteq> JStr ''Aggregates'') df)"
proof -
  have names: "set (map region_name (transform_countries to_float df))
      = set (map region_name (filter (\<lambda>r. region_name r \<noteq> JStr ''Aggregates'') df))"
    by (simp only: transform_countries_def filter_aggregates_eq coerce_coordinates_region)
  have "\<forall>r\<in>set (transform_countries to_float df). region_name r \<noteq> JStr ''Aggregates''"
  proof
    fix r assume "r \<in> set (transform_countries to_float df)"
    then have "region_name r \<in> set (map region_name (transform_countries to_float df))" by simp
    then have "region_name r \<in> set (map region_name (filter (\<lambda>r. region_name r \<noteq> JStr ''Aggregates'') df))"
      using names by simp
    then show "region_name r \<noteq> JStr ''Aggregates''" by auto
  qed
  moreover have "transform_countries to_float df =
       coerce_coordinates to_float (filter (\<lambda>r. region_name r \<noteq> JStr ''Aggregates'') df)"
    by (simp only: transform_countries_def filter_aggregates_eq)
  moreover have "map (\<lambda>r. r\<lparr>longitude := JNull, latitude := JNull\<rparr>) (transform_countries to_float df) =
       map (\<lambda>r. r\<lparr>longitude := JNull, latitude := JNull\<rparr>)
         (filter (\<lambda>r. region_name r \<noteq> JStr ''Aggregates'') df)"
    by (simp only: transform_countries_def filter_aggregates_eq coerce_coordinates_blank)
  ultimately show ?thesis using filter_aggregates_eq by blast
qed

text \<open>
  Witness for C8: of an aggregate and France, France alone is left.
\<close>

theorem aggregates_filtered_out_witness:
  "filter_aggregates [aggregate_row, france_row] = [france_row]
   \<and> map country_id (transform_countries sample_to_float [aggregate_row, france_row]) = [JStr ''FRA'']"
  using aggregates_filtered_out[of "[aggregate_row, france_row]" sample_to_float]
  by (simp add: aggregate_row_def france_row_def coerce_coordinates_def to_numeric_def
      sample_to_float_def sample_read_float_def stable_def)













subsection \<open>Deduplication of the indicators\<close>








subsection \<open>The year of an observation\<close>

lemma length_astype_int64 [simp]: "length (astype_int64 to_int column) = length column"
  by (simp add: astype_int64_def)

lemma astype_int64_strings:
  "list_all is_str column \<Longrightarrow> k < length column \<Longrightarrow> column ! k = JStr s \<Longrightarrow>
   astype_int64 to_int column ! k = read_int to_int s"
  by (simp add: astype_int64_def)

lemma assign_years_Inr:
  "length cells = length rows \<Longrightarrow> assign_years rows cells = Inr out \<Longrightarrow>
   length out = length rows
   \<and> (\<forall>k<length rows. \<exists>i. cells ! k = Inr i \<and> out ! k = (rows ! k)\<lparr>obs_year := JNum (of_int i)\<rparr>)"
proof (induction rows cells arbitrary: out rule: list_induct2')
  case (4 r rs cell cells)
  from 4(3) obtain i out' where c: "cell = Inr i" and o: "assign_years rs cells = Inr out'"
    and out: "out = r\<lparr>obs_year := JNum (of_int i)\<rparr> # out'"
    by (auto split: sum.splits)
  from 4(1)[OF _ o] 4(2) have ih: "length out' = length rs"
    "\<forall>k<length rs. \<exists>i. cells ! k = Inr i \<and> out' ! k = (rs ! k)\<lparr>obs_year := JNum (of_int i)\<rparr>"
    by auto
  show ?case
  proof (intro conjI allI impI)
    show "length out = length (r # rs)" using ih(1) out by simp
  next
    fix k assume "k < length (r # rs)"
    then show "\<exists>i. (cell # cells) ! k = Inr i \<and> out ! k = ((r # rs) ! k)\<lparr>obs_year := JNum (of_int i)\<rparr>"
      using c out ih(2) by (cases k) auto
  qed
qed auto

lemma assign_years_ok:
  "length cells = length rows \<Longrightarrow> \<forall>c\<in>set cells. \<exists>i. c = Inr i \<Longrightarrow>
   \<exists>out. assign_years rows cells = Inr out"
  by (induction rows cells rule: list_induct2') (auto split: sum.splits)

lemma assign_years_raises:
  "length cells = length rows \<Longrightarrow> Inl e \<in> set cells \<Longrightarrow> \<exists>e'. assign_years rows cells = Inl e'"
  by (induction rows cells rule: list_induct2') (auto split: sum.splits)

lemma year_astype_int64_Inr:
  assumes "year_astype_int64 to_int rows = Inr out"
  shows "list_all2 (\<lambda>r d. \<exists>i. d = r\<lparr>obs_year := JNum (of_int i)\<rparr>) rows out"
proof -
  have "length (astype_int64 to_int (map obs_year rows)) = length rows" by simp
  from assign_years_Inr[OF this] assms
  have "length out = length rows"
    "\<forall>k<length rows. \<exists>i. out ! k = (rows ! k)\<lparr>obs_year := JNum (of_int i)\<rparr>"
    by (auto simp: year_astype_int64_def)
  then show ?thesis by (simp add: list_all2_conv_all_nth)
qed

lemma year_strings_ok:
  assumes "list_all (\<lambda>r. is_str (obs_year r)) rows"
    and "\<forall>r\<in>set rows. \<forall>s. obs_year r = JStr s \<longrightarrow> (\<exists>i. read_int to_int s = Inr i)"
  shows "\<exists>out. year_astype_int64 to_int rows = Inr out \<and> length out = length rows
         \<and> (\<forall>k<length rows. \<forall>s i. obs_year (rows ! k) = JStr s \<and> read_int to_int s = Inr i \<longrightarrow>
               out ! k = (rows ! k)\<lparr>obs_year := JNum (of_int i)\<rparr>)"
proof -
  let ?col = "map obs_year rows"
  have strs: "list_all is_str ?col" using assms(1) by (simp add: list_all_iff)
  have len: "length (astype_int64 to_int ?col) = length rows" by simp
  have cell: "astype_int64 to_int ?col ! k = read_int to_int s"
    if "k < length rows" "obs_year (rows ! k) = JStr s" for k s
    using astype_int64_strings[OF strs, of k s to_int] that by simp
  have "\<forall>c\<in>set (astype_int64 to_int ?col). \<exists>i. c = Inr i"
  proof
    fix c assume "c \<in> set (astype_int64 to_int ?col)"
    then obtain k where k: "k < length rows" "c = astype_int64 to_int ?col ! k"
      by (auto simp: in_set_conv_nth)
    have "is_str (obs_year (rows ! k))" using assms(1) k(1) by (simp add: list_all_length)
    then obtain s where s: "obs_year (rows ! k) = JStr s" by (cases "obs_year (rows ! k)") auto
    then obtain i where "read_int to_int s = Inr i" using assms(2) k(1) by (metis nth_mem)
    then show "\<exists>i. c = Inr i" using cell[OF k(1) s] k(2) by simp
  qed
  from assign_years_ok[OF len this] obtain out where
    out: "year_astype_int64 to_int rows = Inr out" by (auto simp: year_astype_int64_def)
  from assign_years_Inr[OF len] out have o: "length out = length rows"
    "\<forall>k<length rows. \<exists>i. astype_int64 to_int ?col ! k = Inr i
        \<and> out ! k = (rows ! k)\<lparr>obs_year := JNum (of_int i)\<rparr>"
    by (auto simp: year_astype_int64_def)
  have "\<forall>k<length rows. \<forall>s i. obs_year (rows ! k) = JStr s \<and> read_int to_int s = Inr i \<longrightarrow>
               out ! k = (rows ! k)\<lparr>obs_year := JNum (of_int i)\<rparr>"
  proof (intro allI impI)
    fix k s i assume k: "k < length rows"
      and s: "obs_year (rows ! k) = JStr s \<and> read_int to_int s = Inr i"
    from o(2) k obtain j where "astype_int64 to_int ?col ! k = Inr j"
      "out ! k = (rows ! k)\<lparr>obs_year := JNum (of_int j)\<rparr>" by blast
    then show "out ! k = (rows ! k)\<lparr>obs_year := JNum (of_int i)\<rparr>"
      using cell[OF k, of s] s by simp
  qed
  with out o(1) show ?thesis by blast
qed

lemma year_strings_raise:
  assumes "list_all (\<lambda>r. is_str (obs_year r)) rows"
    and "r \<in> set rows" "obs_year r = JStr s" "read_int to_int s = Inl err"
  shows "\<exists>err'. year_astype_int64 to_int rows = Inl err'"
proof -
  let ?col = "map obs_year rows"
  have strs: "list_all is_str ?col" using assms(1) by (simp add: list_all_iff)
  have len: "length (astype_int64 to_int ?col) = length rows" by simp
  from assms(2) obtain k where k: "k < length rows" "rows ! k = r" by (auto simp: in_set_conv_nth)
  have "astype_int64 to_int ?col ! k = Inl err"
    using astype_int64_strings[OF strs, of k s to_int] k assms(3,4) by simp
  then have "Inl err \<in> set (astype_int64 to_int ?col)"
    using k(1) len by (metis nth_mem)
  from assign_years_raises[OF len this] show ?thesis by (simp add: year_astype_int64_def)
qed

lemma main_values_crash:
  assumes "connect e ws = (True, wk)"
    and "collect_values (api e) indicators new_collector = Some (None, c)"
    and "acc c \<noteq> []" and "year_astype_int64 to_int (acc c) = Inl err"
  shows "\<exists>w. main_values e to_int ws = Some (Crashed err, w)
           \<and> tables w = tables ws \<and> engine w = Live"
proof -
  have wk: "tables wk = tables ws" "engine wk = Live"
    using assms(1) by (auto simp: connect_def say_def split: if_splits)
  show ?thesis using assms wk
    by (simp add: main_values_def Let_def say_def collected_def)
qed

lemma map_value_bad_date: "map_value observation_bad_date = Inr row_bad_date"
  by (simp add: map_value_def observation_bad_date_def row_bad_date_def row_2020_def)

lemma append_values_bad_date: "append_values [observation_bad_date] a = (None, a @ [row_bad_date])"
proof -
  have "dict_get observation_bad_date ''value'' JNull = Inr (JNum 67571107)"
    by (simp add: observation_bad_date_def)
  then show ?thesis by (simp add: map_value_bad_date)
qed

lemma collect_indicator_bad_date:
  "\<exists>s. collect_indicator bad_date_api indicator (Suc 0) st = Some (None, s)
     \<and> acc s = acc st @ [row_bad_date]"
  by (subst collect_indicator.simps)
     (simp add: value_step_def bad_date_api_def append_values_bad_date del: append_values.simps)

lemma collect_values_bad_date:
  "\<exists>c. collect_values bad_date_api inds st = Some (None, c)
     \<and> acc c = acc st @ replicate (length inds) row_bad_date"
proof (induction inds arbitrary: st)
  case Nil
  then show ?case by simp
next
  case (Cons i inds)
  obtain s where s: "collect_indicator bad_date_api i (Suc 0) (st\<lparr>printed := printed st @ [MsgIndicatorStart i]\<rparr>)
      = Some (None, s)" "acc s = acc st @ [row_bad_date]"
    using collect_indicator_bad_date[of i "st\<lparr>printed := printed st @ [MsgIndicatorStart i]\<rparr>"] by auto
  obtain c where "collect_values bad_date_api inds (s\<lparr>printed := printed s @ [MsgIndicatorDone i (length (acc s))]\<rparr>)
      = Some (None, c)"
    "acc c = acc (s\<lparr>printed := printed s @ [MsgIndicatorDone i (length (acc s))]\<rparr>) @ replicate (length inds) row_bad_date"
    using Cons by blast
  then show ?case using s by (simp add: replicate_app_Cons_same)
qed

lemma main_values_bad_date_collect:
  "\<exists>c. collect_values (api bad_date_env) indicators new_collector = Some (None, c)
      \<and> row_bad_date \<in> set (acc c)"
proof -
  obtain c where "collect_values bad_date_api indicators new_collector = Some (None, c)"
    "acc c = acc (new_collector :: (value_row, string \<times> nat) collector) @ replicate (length indicators) row_bad_date"
    using collect_values_bad_date by blast
  then show ?thesis by (simp add: bad_date_env_def indicators_def)
qed

text \<open>
  Claim C10. The conversion of line 149 is strict. Take a frame whose dates are strings,
  as the API sends them. When every date reads as an integer, the frame keeps its rows and
  the year of each row is the integer of its date. When one date does not read as an
  integer the conversion raises; line 149 stands outside every \<^verbatim>\<open>try\<close>, so \<^verbatim>\<open>main\<close> then
  ends with the exception, the tables untouched and the engine not disposed, where
  \<^verbatim>\<open>pd.to_numeric(errors='coerce')\<close> gives null for a string that is not a number.
\<close>

theorem year_coercion_is_strict:
  assumes "list_all (\<lambda>r. is_str (obs_year r)) rows"
  shows
    "((\<forall>r\<in>set rows. \<forall>s. obs_year r = JStr s \<longrightarrow> (\<exists>i. read_int to_int s = Inr i)) \<longrightarrow>
        (\<exists>out. year_astype_int64 to_int rows = Inr out \<and> length out = length rows
           \<and> (\<forall>k<length rows. \<forall>s i. obs_year (rows ! k) = JStr s \<and> read_int to_int s = Inr i \<longrightarrow>
                 out ! k = (rows ! k)\<lparr>obs_year := JNum (of_int i)\<rparr>)))
     \<and> (r \<in> set rows \<and> obs_year r = JStr s \<and> read_int to_int s = Inl err \<longrightarrow>
          (\<exists>err'. year_astype_int64 to_int rows = Inl err'))
     \<and> (connect env ws = (True, wk)
          \<and> collect_values (api env) indicators new_collector = Some (None, c)
          \<and> acc c = rows \<and> r \<in> set rows \<and> obs_year r = JStr s \<and> read_int to_int s = Inl err \<longrightarrow>
          (\<exists>err' w. main_values env to_int ws = Some (Crashed err', w)
             \<and> tables w = tables ws \<and> engine w = Live))
     \<and> (read_float to_float s = NotNumber \<longrightarrow> to_numeric to_float [JStr s] = [JNull])"
proof (intro conjI impI)
  assume "\<forall>r\<in>set rows. \<forall>s. obs_year r = JStr s \<longrightarrow> (\<exists>i. read_int to_int s = Inr i)"
  from year_strings_ok[OF assms this]
  show "\<exists>out. year_astype_int64 to_int rows = Inr out \<and> length out = length rows
           \<and> (\<forall>k<length rows. \<forall>s i. obs_year (rows ! k) = JStr s \<and> read_int to_int s = Inr i \<longrightarrow>
                 out ! k = (rows ! k)\<lparr>obs_year := JNum (of_int i)\<rparr>)" .
next
  assume "r \<in> set rows \<and> obs_year r = JStr s \<and> read_int to_int s = Inl err"
  then show "\<exists>err'. year_astype_int64 to_int rows = Inl err'"
    using year_strings_raise[OF assms] by blast
next
  assume h: "connect env ws = (True, wk)
          \<and> collect_values (api env) indicators new_collector = Some (None, c)
          \<and> acc c = rows \<and> r \<in> set rows \<and> obs_year r = JStr s \<and> read_int to_int s = Inl err"
  then obtain err' where e: "year_astype_int64 to_int rows = Inl err'"
    using year_strings_raise[OF assms] by blast
  have ne: "acc c \<noteq> []" using h by auto
  from h e have "year_astype_int64 to_int (acc c) = Inl err'" by simp
  from main_values_crash[OF _ _ ne this, of env ws wk] h
  show "\<exists>err' w. main_values env to_int ws = Some (Crashed err', w)
             \<and> tables w = tables ws \<and> engine w = Live" by blast
next
  assume "read_float to_float s = NotNumber"
  then show "to_numeric to_float [JStr s] = [JNull]" by (simp add: to_numeric_def)
qed

text \<open>
  Witness for C10: the date \<^verbatim>\<open>'2020'\<close> becomes the year 2020; next to it the date \<^verbatim>\<open>'MRV'\<close>
  makes the conversion raise, and a run that collects \<^verbatim>\<open>'MRV'\<close> ends with the exception.
\<close>

theorem year_coercion_is_strict_witness:
  "year_astype_int64 sample_to_int [row_2020] = Inr [row_2020\<lparr>obs_year := JNum 2020\<rparr>]
   \<and> (\<exists>err. year_astype_int64 sample_to_int [row_2020, row_bad_date] = Inl err)
   \<and> (\<exists>err w. main_values bad_date_env sample_to_int empty_world = Some (Crashed err, w)
         \<and> engine w = Live)
   \<and> to_numeric sample_to_float [JStr ''MRV''] = [JNull]"
proof -
  obtain c where c: "collect_values bad_date_api indicators new_collector = Some (None, c)"
    "acc c = acc (new_collector :: (value_row, string \<times> nat) collector)
        @ replicate (length indicators) row_bad_date"
    using collect_values_bad_date by blast
  have "length indicators \<noteq> 0" by (simp add: indicators_def)
  then have accc: "set (acc c) = {row_bad_date}" using c(2) by (simp add: new_collector_def)
  have conn: "connect bad_date_env (empty_world :: (value_row, string \<times> nat) world) =
      (True, say (say (empty_world\<lparr>engine := Live\<rparr>) MsgConnected) MsgLoading)"
    by (simp add: connect_def bad_date_env_def missing_vars_def required_vars_def all_settings_def)
  have s1: "list_all (\<lambda>r. is_str (obs_year r)) [row_2020]" by (simp add: row_2020_def)
  have s2: "list_all (\<lambda>r. is_str (obs_year r)) [row_2020, row_bad_date]"
    by (simp add: row_2020_def row_bad_date_def)
  have s3: "list_all (\<lambda>r. is_str (obs_year r)) (acc c)"
    by (simp add: accc list_all_iff row_bad_date_def)
  have good: "\<forall>r\<in>set [row_2020]. \<forall>s. obs_year r = JStr s \<longrightarrow> (\<exists>i. read_int sample_to_int s = Inr i)"
    by (simp add: row_2020_def sample_to_int_def sample_read_int_def)
  have il: "read_int sample_to_int ''MRV'' = Inl ValueError"
    by (simp add: sample_to_int_def sample_read_int_def)
  have fl: "read_float sample_to_float ''MRV'' = NotNumber"
    by (simp add: sample_to_float_def sample_read_float_def)
  have yb: "obs_year row_bad_date = JStr ''MRV''" by (simp add: row_bad_date_def)
  have y2020: "obs_year ([row_2020] ! 0) = JStr ''2020'' \<and> read_int sample_to_int ''2020'' = Inr 2020"
    by (simp add: row_2020_def sample_to_int_def sample_read_int_def)
  note t1 = year_coercion_is_strict[OF s1, where to_int = sample_to_int and s = "''MRV''"
      and to_float = sample_to_float]
  note t2 = year_coercion_is_strict[OF s2, where to_int = sample_to_int and s = "''MRV''"
      and r = row_bad_date and err = ValueError]
  note t3 = year_coercion_is_strict[OF s3, where to_int = sample_to_int and s = "''MRV''"
      and r = row_bad_date and err = ValueError and env = bad_date_env and ws = empty_world
      and wk = "say (say (empty_world\<lparr>engine := Live\<rparr>) MsgConnected) MsgLoading" and c = c]
  from mp[OF conjunct1[OF t1] good] obtain out where out: "year_astype_int64 sample_to_int [row_2020] = Inr out"
    "length out = length [row_2020]"
    "\<forall>k<length [row_2020]. \<forall>s i. obs_year ([row_2020] ! k) = JStr s \<and> read_int sample_to_int s = Inr i \<longrightarrow>
               out ! k = ([row_2020] ! k)\<lparr>obs_year := JNum (of_int i)\<rparr>"
    by blast
  from out(3) y2020 have "out ! 0 = row_2020\<lparr>obs_year := JNum 2020\<rparr>" by fastforce
  with out(2) have "out = [row_2020\<lparr>obs_year := JNum 2020\<rparr>]"
    by (cases out) auto
  with out(1) have A: "year_astype_int64 sample_to_int [row_2020] = Inr [row_2020\<lparr>obs_year := JNum 2020\<rparr>]"
    by simp
  have hb: "row_bad_date \<in> set [row_2020, row_bad_date] \<and> obs_year row_bad_date = JStr ''MRV''
      \<and> read_int sample_to_int ''MRV'' = Inl ValueError" using yb il by simp
  from mp[OF conjunct1[OF conjunct2[OF t2]] hb]
  have B: "\<exists>err. year_astype_int64 sample_to_int [row_2020, row_bad_date] = Inl err" .
  have ap: "api bad_date_env = bad_date_api" by (simp add: bad_date_env_def)
  have hc: "connect bad_date_env (empty_world :: (value_row, string \<times> nat) world) =
        (True, say (say (empty_world\<lparr>engine := Live\<rparr>) MsgConnected) MsgLoading)
      \<and> collect_values (api bad_date_env) indicators new_collector = Some (None, c)
      \<and> acc c = acc c \<and> row_bad_date \<in> set (acc c) \<and> obs_year row_bad_date = JStr ''MRV''
      \<and> read_int sample_to_int ''MRV'' = Inl ValueError"
    using conn c(1) yb il by (simp add: accc ap)
  from mp[OF conjunct1[OF conjunct2[OF conjunct2[OF t3]]] hc]
  have C: "\<exists>err w. main_values bad_date_env sample_to_int empty_world = Some (Crashed err, w)
         \<and> engine w = Live" by blast
  from mp[OF conjunct2[OF conjunct2[OF conjunct2[OF t1]]] fl]
  have D: "to_numeric sample_to_float [JStr ''MRV''] = [JNull]" .
  from A B C D show ?thesis by blast
qed

subsection \<open>An empty collection\<close>

lemma connect_True:
  "connect e w = (True, w1) \<Longrightarrow> tables w1 = tables w \<and> engine w1 = Live"
  by (auto simp: connect_def say_def split: if_splits)

lemma collect_pages_end_of_stream:
  assumes "resp page = Inr data"
    and "\<not> is_list data \<or> (\<exists>xs. data = JArr xs \<and> (length xs < 2 \<or> \<not> truthy (xs ! 1)))"
  shows "collect_pages f resp page st =
     Some (None, st\<lparr>requests := requests st @ [page], printed := printed st @ [MsgPage page]\<rparr>)"
  using assms
  by (subst collect_pages.simps)
    (auto simp: page_step_def is_list_def split: json.splits)

text \<open>
  Claim C4. When the connection is established and the collection ends normally with no
  row, each of the three programs returns with the tables of the store as they were at
  the start (nothing dropped, created or loaded), and the last line it printed is the
  report of the empty result. A first page that is no list, has fewer than two elements
  or has an empty second element is such a collection.
\<close>

theorem empty_result_leaves_store_untouched:
  "(connect e (say ws MsgStart) = (True, wk)
      \<and> collect_pages map_country (api e) 1 new_collector = Some (None, c) \<and> acc c = [] \<longrightarrow>
      (\<exists>w. main_countries e to_float ws = Some (Returned, w) \<and> tables w = tables ws
         \<and> last (stdout w) = MsgNoData))
   \<and> (connect ei wsi = (True, wki)
      \<and> collect_pages map_indicator (api ei) 1 new_collector = Some (None, ci) \<and> acc ci = [] \<longrightarrow>
      (\<exists>w. main_indicators ei wsi = Some (Returned, w) \<and> tables w = tables wsi
         \<and> last (stdout w) = MsgNoData))
   \<and> (connect ev wsv = (True, wkv)
      \<and> collect_values (api ev) indicators new_collector = Some (None, cv) \<and> acc cv = [] \<longrightarrow>
      (\<exists>w. main_values ev to_int wsv = Some (Returned, w) \<and> tables w = tables wsv
         \<and> last (stdout w) = MsgNoData))
   \<and> (resp 1 = Inr data
      \<and> (\<not> is_list data \<or> (\<exists>xs. data = JArr xs \<and> (length xs < 2 \<or> \<not> truthy (xs ! 1)))) \<longrightarrow>
      (\<exists>c'. collect_pages f resp 1 new_collector = Some (None, c') \<and> acc c' = []))"
proof (intro conjI impI)
  assume h: "connect e (say ws MsgStart) = (True, wk)
      \<and> collect_pages map_country (api e) 1 new_collector = Some (None, c) \<and> acc c = []"
  then have "tables wk = tables ws" using connect_True[of e "say ws MsgStart" wk]
    by (simp add: say_def)
  then show "\<exists>w. main_countries e to_float ws = Some (Returned, w) \<and> tables w = tables ws
         \<and> last (stdout w) = MsgNoData"
    using h by (simp add: main_countries_def say_def collected_def)
next
  assume h: "connect ei wsi = (True, wki)
      \<and> collect_pages map_indicator (api ei) 1 new_collector = Some (None, ci) \<and> acc ci = []"
  then have "tables wki = tables wsi" using connect_True[of ei wsi wki] by simp
  then show "\<exists>w. main_indicators ei wsi = Some (Returned, w) \<and> tables w = tables wsi
         \<and> last (stdout w) = MsgNoData"
    using h by (simp add: main_indicators_def say_def collected_def)
next
  assume h: "connect ev wsv = (True, wkv)
      \<and> collect_values (api ev) indicators new_collector = Some (None, cv) \<and> acc cv = []"
  then have "tables wkv = tables wsv" using connect_True[of ev wsv wkv] by simp
  then show "\<exists>w. main_values ev to_int wsv = Some (Returned, w) \<and> tables w = tables wsv
         \<and> last (stdout w) = MsgNoData"
    using h by (simp add: main_values_def say_def collected_def)
next
  assume "resp 1 = Inr data
      \<and> (\<not> is_list data \<or> (\<exists>xs. data = JArr xs \<and> (length xs < 2 \<or> \<not> truthy (xs ! 1))))"
  then show "\<exists>c'. collect_pages f resp 1 new_collector = Some (None, c') \<and> acc c' = []"
    using collect_pages_end_of_stream[of resp 1 data f new_collector]
    by (simp add: new_collector_def)
qed

lemma collect_indicator_empty:
  "\<exists>s. collect_indicator empty_values_api indicator (Suc 0) st = Some (None, s) \<and> acc s = acc st"
  by (subst collect_indicator.simps) (simp add: value_step_def empty_values_api_def)

lemma collect_values_empty:
  "\<exists>c. collect_values empty_values_api inds st = Some (None, c) \<and> acc c = acc st"
proof (induction inds arbitrary: st)
  case Nil
  then show ?case by simp
next
  case (Cons i inds)
  obtain s where s: "collect_indicator empty_values_api i (Suc 0) (st\<lparr>printed := printed st @ [MsgIndicatorStart i]\<rparr>)
      = Some (None, s)" "acc s = acc st"
    using collect_indicator_empty[of i "st\<lparr>printed := printed st @ [MsgIndicatorStart i]\<rparr>"] by auto
  obtain c where "collect_values empty_values_api inds (s\<lparr>printed := printed s @ [MsgIndicatorDone i (length (acc s))]\<rparr>)
      = Some (None, c)"
    "acc c = acc (s\<lparr>printed := printed s @ [MsgIndicatorDone i (length (acc s))]\<rparr>)"
    using Cons by blast
  then show ?case using s by simp
qed

text \<open>
  Witness for C4: on an API whose first page is empty, each program returns after the
  report; the table of countries and the table of observations that the store held are
  still there with their rows.
\<close>

theorem empty_result_leaves_store_untouched_witness:
  "(\<exists>w. main_countries empty_env sample_to_float stocked_world = Some (Returned, w)
       \<and> tables w ''worldbank_countries'' = Some [france_row] \<and> last (stdout w) = MsgNoData)
   \<and> (\<exists>w. main_indicators empty_env empty_world = Some (Returned, w) \<and> last (stdout w) = MsgNoData)
   \<and> (\<exists>w. main_values empty_values_env sample_to_int stocked_values_world = Some (Returned, w)
       \<and> tables w ''worldbank_values'' = Some [row_2020] \<and> last (stdout w) = MsgNoData)"
proof -
  have d: "empty_api 1 = Inr (JArr [JObj [(''page'', JNum 0), (''pages'', JNum 0)], JArr []])
      \<and> (\<not> is_list (JArr [JObj [(''page'', JNum 0), (''pages'', JNum 0)], JArr []])
           \<or> (\<exists>xs. JArr [JObj [(''page'', JNum 0), (''pages'', JNum 0)], JArr []] = JArr xs
                 \<and> (length xs < 2 \<or> \<not> truthy (xs ! 1))))"
    by (simp add: empty_api_def)
  have a: "api empty_env = empty_api" by (simp add: empty_env_def)
  have c1: "connect empty_env (say stocked_world MsgStart) =
      (True, say (say ((say stocked_world MsgStart)\<lparr>engine := Live\<rparr>) MsgConnected) MsgLoading)"
    by (simp add: connect_def empty_env_def missing_vars_def required_vars_def all_settings_def)
  have c2: "connect empty_env (empty_world :: (indicator_row, nat) world) =
      (True, say (say (empty_world\<lparr>engine := Live\<rparr>) MsgConnected) MsgLoading)"
    by (simp add: connect_def empty_env_def missing_vars_def required_vars_def all_settings_def)
  have c3: "connect empty_values_env stocked_values_world =
      (True, say (say (stocked_values_world\<lparr>engine := Live\<rparr>) MsgConnected) MsgLoading)"
    by (simp add: connect_def empty_values_env_def missing_vars_def required_vars_def all_settings_def)
  obtain cv where cv: "collect_values (api empty_values_env) indicators new_collector = Some (None, cv)"
    "acc cv = []"
    using collect_values_empty[of indicators new_collector]
    by (auto simp: empty_values_env_def new_collector_def)
  note t = empty_result_leaves_store_untouched[where resp = empty_api and f = map_country
      and data = "JArr [JObj [(''page'', JNum 0), (''pages'', JNum 0)], JArr []]"]
  from t d obtain cc where cc: "collect_pages map_country empty_api 1 new_collector = Some (None, cc)"
    "acc cc = []" by blast
  note ti = empty_result_leaves_store_untouched[where resp = empty_api and f = map_indicator
      and data = "JArr [JObj [(''page'', JNum 0), (''pages'', JNum 0)], JArr []]"]
  from ti d obtain ci where ci: "collect_pages map_indicator empty_api 1 new_collector = Some (None, ci)"
    "acc ci = []" by blast
  note u = empty_result_leaves_store_untouched[where e = empty_env and ws = stocked_world and c = cc
      and ei = empty_env and wsi = "empty_world :: (indicator_row, nat) world" and ci = ci
      and ev = empty_values_env and wsv = stocked_values_world and cv = cv
      and to_float = sample_to_float and to_int = sample_to_int
      and wk = "say (say ((say stocked_world MsgStart)\<lparr>engine := Live\<rparr>) MsgConnected) MsgLoading"
      and wki = "say (say (empty_world\<lparr>engine := Live\<rparr>) MsgConnected) MsgLoading"
      and wkv = "say (say (stocked_values_world\<lparr>engine := Live\<rparr>) MsgConnected) MsgLoading"]
  have ha: "connect empty_env (say stocked_world MsgStart) =
      (True, say (say ((say stocked_world MsgStart)\<lparr>engine := Live\<rparr>) MsgConnected) MsgLoading)
      \<and> collect_pages map_country (api empty_env) 1 new_collector = Some (None, cc) \<and> acc cc = []"
    using c1 cc a by simp
  have hb: "connect empty_env (empty_world :: (indicator_row, nat) world) =
      (True, say (say (empty_world\<lparr>engine := Live\<rparr>) MsgConnected) MsgLoading)
      \<and> collect_pages map_indicator (api empty_env) 1 new_collector = Some (None, ci) \<and> acc ci = []"
    using c2 ci a by simp
  have hc: "connect empty_values_env stocked_values_world =
      (True, say (say (stocked_values_world\<lparr>engine := Live\<rparr>) MsgConnected) MsgLoading)
      \<and> collect_values (api empty_values_env) indicators new_collector = Some (None, cv) \<and> acc cv = []"
    using c3 cv by simp
  from mp[OF conjunct1[OF u] ha] obtain w where
    A: "main_countries empty_env sample_to_float stocked_world = Some (Returned, w)"
    "tables w = tables stocked_world" "last (stdout w) = MsgNoData" by blast
  from mp[OF conjunct1[OF conjunct2[OF u]] hb] obtain wi where
    B: "main_indicators empty_env empty_world = Some (Returned, wi)"
    "last (stdout wi) = MsgNoData" by blast
  from mp[OF conjunct1[OF conjunct2[OF conjunct2[OF u]]] hc] obtain wv where
    C: "main_values empty_values_env sample_to_int stocked_values_world = Some (Returned, wv)"
    "tables wv = tables stocked_values_world" "last (stdout wv) = MsgNoData" by blast
  have "tables w ''worldbank_countries'' = Some [france_row]"
    using A(2) by (simp add: stocked_world_def)
  moreover have "tables wv ''worldbank_values'' = Some [row_2020]"
    using C(2) by (simp add: stocked_values_world_def)
  ultimately show ?thesis using A B C by blast
qed

subsection \<open>The observations collected\<close>

lemma map_value_keeps_value:
  "dict_get item ''value'' JNull = Inr v \<Longrightarrow> v \<noteq> JNull \<Longrightarrow> map_value item = Inr r \<Longrightarrow> obs_value r = v"
  by (cases item) (auto simp: map_value_def ebind_def split: sum.splits option.splits)

lemma append_values_inv:
  "append_values items a = (res, rows) \<Longrightarrow>
     (list_all (\<lambda>r. obs_value r \<noteq> JNull) a \<longrightarrow> list_all (\<lambda>r. obs_value r \<noteq> JNull) rows)
     \<and> (res = None \<longrightarrow> map Inr rows = map Inr a @ map map_value (filter retained items))"
proof (induction items arbitrary: a)
  case Nil
  then show ?case by simp
next
  case (Cons x xs)
  show ?case
  proof (cases "dict_get x ''value'' JNull")
    case (Inl e)
    then show ?thesis using Cons.prems by auto
  next
    case (Inr v)
    show ?thesis
    proof (cases "v = JNull")
      case True
      then show ?thesis using Inr Cons.prems Cons.IH[of a] by (simp add: retained_def)
    next
      case False
      show ?thesis
      proof (cases "map_value x")
        case (Inl e)
        then show ?thesis using Inr False Cons.prems by auto
      next
        case r: (Inr r)
        have "obs_value r = v" using map_value_keeps_value[OF Inr False r] .
        then show ?thesis using Inr False r Cons.prems Cons.IH[of "a @ [r]"]
          by (simp add: retained_def)
      qed
    qed
  qed
qed


lemma falsy_iter: "\<not> truthy v \<Longrightarrow> (case py_iter v of Inl e \<Rightarrow> [] | Inr items \<Rightarrow> items) = []"
  by (cases v) auto

lemma falsy_no_second: "\<not> truthy data \<Longrightarrow> page_items (Inr data) = []"
  by (cases data) (auto simp: page_items_def)

lemma short_no_second: "py_len data = Inr n \<Longrightarrow> n < 2 \<Longrightarrow> page_items (Inr data) = []"
  by (cases data) (auto simp: page_items_def)

lemma page_items_iter:
  "subscript_index data 1 = Inr page_data \<Longrightarrow> py_iter page_data = Inr items \<Longrightarrow>
   page_items (Inr data) = items"
  by (simp add: page_items_def)

lemma page_items_falsy:
  "subscript_index data 1 = Inr page_data \<Longrightarrow> \<not> truthy page_data \<Longrightarrow> page_items (Inr data) = []"
  by (simp add: page_items_def falsy_iter)

lemma value_step_inv:
  "value_step resp indicator page st = x \<Longrightarrow>
   (case x of Stop s \<Rightarrow> value_inv resp st True s \<and> requests s = requests st @ [(indicator, page)]
    | Next s \<Rightarrow> value_inv resp st True s \<and> requests s = requests st @ [(indicator, page)]
    | Raise e s \<Rightarrow> value_inv resp st False s)"
proof -
  assume x: "value_step resp indicator page st = x"
  show ?thesis
  proof (cases "resp indicator page")
    case (Inl e)
    then show ?thesis using x by (auto simp: value_step_def value_inv_def)
  next
    case (Inr data)
    show ?thesis
    proof (cases "truthy data")
      case False
      then show ?thesis using x Inr falsy_no_second[OF False]
        by (auto simp: value_step_def value_inv_def)
    next
      case True
      show ?thesis
      proof (cases "py_len data")
        case (Inl e)
        then show ?thesis using x Inr True by (auto simp: value_step_def value_inv_def)
      next
        case n: (Inr n)
        show ?thesis
        proof (cases "n < 2")
          case lt: True
          then show ?thesis using x Inr True n short_no_second[OF n lt]
            by (auto simp: value_step_def value_inv_def)
        next
          case ge: False
          show ?thesis
          proof (cases "ebind (subscript_index data 0) (\<lambda>metadata. dict_get metadata ''pages'' (JNum 1))")
            case (Inl e)
            then show ?thesis using x Inr True n ge by (auto simp: value_step_def value_inv_def)
          next
            case tp: (Inr total_pages)
            show ?thesis
            proof (cases "subscript_index data 1")
              case (Inl e)
              then show ?thesis using x Inr True n ge tp by (auto simp: value_step_def value_inv_def)
            next
              case pd: (Inr page_data)
              show ?thesis
              proof (cases "truthy page_data")
                case f: False
                then show ?thesis using x Inr True n ge tp pd page_items_falsy[OF pd f]
                  by (auto simp: value_step_def value_inv_def)
              next
                case t: True
                show ?thesis
                proof (cases "py_iter page_data")
                  case (Inl e)
                  then show ?thesis using x Inr True n ge tp pd t
                    by (auto simp: value_step_def value_inv_def)
                next
                  case it: (Inr items)
                  obtain res rows where av: "append_values items (acc st) = (res, rows)"
                    by (cases "append_values items (acc st)") auto
                  note inv = append_values_inv[OF av]
                  note pi = page_items_iter[OF pd it]
                  show ?thesis
                  proof (cases res)
                    case (Some e)
                    then show ?thesis using x Inr True n ge tp pd t it av inv
                      by (auto simp: value_step_def value_inv_def)
                  next
                    case None
                    then show ?thesis using x Inr True n ge tp pd t it av inv pi
                      by (auto simp: value_step_def value_inv_def Let_def split: sum.splits bool.splits)
                  qed
                qed
              qed
            qed
          qed
        qed
      qed
    qed
  qed
qed


lemma value_inv_refl: "value_inv resp st ok st"
  by (simp add: value_inv_def)

lemma value_inv_trans:
  assumes "value_inv resp st True s" "value_inv resp s ok c"
  shows "value_inv resp st ok c"
proof -
  from assms(1) obtain qs where qs: "requests s = requests st @ qs"
    "map Inr (acc s) = map Inr (acc st)
       @ map map_value (concat (map (\<lambda>q. filter retained (page_items (resp (fst q) (snd q)))) qs))"
    by (auto simp: value_inv_def)
  from assms(2) obtain qs' where qs': "requests c = requests s @ qs'"
    "ok \<longrightarrow> map Inr (acc c) = map Inr (acc s)
       @ map map_value (concat (map (\<lambda>q. filter retained (page_items (resp (fst q) (snd q)))) qs'))"
    by (auto simp: value_inv_def)
  have "requests c = requests st @ (qs @ qs')" using qs(1) qs'(1) by simp
  moreover have "ok \<longrightarrow> map Inr (acc c) = map Inr (acc st)
       @ map map_value (concat (map (\<lambda>q. filter retained (page_items (resp (fst q) (snd q)))) (qs @ qs')))"
    using qs(2) qs'(2) by simp
  moreover have "list_all (\<lambda>r. obs_value r \<noteq> JNull) (acc st) \<longrightarrow> list_all (\<lambda>r. obs_value r \<noteq> JNull) (acc c)"
    using assms by (simp add: value_inv_def)
  ultimately show ?thesis unfolding value_inv_def by blast
qed

lemma value_inv_weaken: "value_inv resp st True s \<Longrightarrow> value_inv resp st ok s"
  by (auto simp: value_inv_def)

lemma value_inv_printed [simp]:
  "value_inv resp (st\<lparr>printed := p\<rparr>) ok c = value_inv resp st ok c"
  "value_inv resp st ok (c\<lparr>printed := p\<rparr>) = value_inv resp st ok c"
  by (simp_all add: value_inv_def)

lemma collect_indicator_inv:
  "collect_indicator resp indicator page st = Some y \<Longrightarrow> value_inv resp st (fst y = None) (snd y)"
proof (induction rule: collect_indicator.raw_induct[rotated 1, consumes 1])
  case (1 collect_indicator resp indicator page st y)
  note inv = value_step_inv[OF refl, where resp=resp and indicator=indicator and page=page and st=st]
  show ?case
  proof (cases "value_step resp indicator page st")
    case (Stop s)
    then show ?thesis using 1(2) inv by auto
  next
    case (Raise e s)
    then show ?thesis using 1(2) inv by auto
  next
    case (Next s)
    then have "collect_indicator resp indicator (Suc page) s = Some y" using 1(2) by simp
    from 1(1)[OF this] have "value_inv resp s (fst y = None) (snd y)" .
    moreover have "value_inv resp st True s" using Next inv by simp
    ultimately show ?thesis by (rule value_inv_trans[rotated])
  qed
qed

lemma collect_values_inv:
  "collect_values resp inds st = Some y \<Longrightarrow> value_inv resp st (fst y = None) (snd y)"
proof (induction inds arbitrary: st)
  case Nil
  then show ?case by (auto simp: value_inv_refl)
next
  case (Cons i inds)
  let ?st = "st\<lparr>printed := printed st @ [MsgIndicatorStart i]\<rparr>"
  show ?case
  proof (cases "collect_indicator resp i 1 ?st")
    case None
    then show ?thesis using Cons.prems by simp
  next
    case (Some z)
    obtain res s where z: "z = (res, s)" by (cases z)
    from collect_indicator_inv[OF Some] z have i1: "value_inv resp st (res = None) s" by simp
    show ?thesis
    proof (cases res)
      case None
      let ?s = "s\<lparr>printed := printed s @ [MsgIndicatorDone i (length (acc s))]\<rparr>"
      have "collect_values resp inds ?s = Some y" using Cons.prems Some z None by simp
      from Cons.IH[OF this] have "value_inv resp s (fst y = None) (snd y)" by simp
      moreover have "value_inv resp st True s" using i1 None by simp
      ultimately show ?thesis by (rule value_inv_trans[rotated])
    next
      case (Some e)
      then have "y = (Some e, s)" using Cons.prems \<open>collect_indicator resp i 1 ?st = Some z\<close> z by simp
      then show ?thesis using i1 Some by simp
    qed
  qed
qed

text \<open>
  Claim C7. Let the collection of \<^verbatim>\<open>load_values.py\<close> end normally and the year conversion
  succeed. Then every row of the frame that is loaded has a value other than null. The
  collected rows are, in order, the mapped records of all requested pages that passed
  the test of line 115, one row for each such record: two retained records give two rows,
  whatever their country, indicator and year. The frame has as many rows, each the
  collected row with its year converted.
\<close>

theorem observations_nonnull_not_deduplicated:
  assumes "collect_values resp inds new_collector = Some (None, c)"
    and "year_astype_int64 to_int (acc c) = Inr df"
  shows "(\<forall>r\<in>set df. obs_value r \<noteq> JNull)
     \<and> map Inr (acc c) =
         map map_value (concat (map (\<lambda>q. filter retained (page_items (resp (fst q) (snd q)))) (requests c)))
     \<and> length df = length (concat (map (\<lambda>q. filter retained (page_items (resp (fst q) (snd q)))) (requests c)))
     \<and> list_all2 (\<lambda>r d. \<exists>i. d = r\<lparr>obs_year := JNum (of_int i)\<rparr>) (acc c) df"
proof -
  from collect_values_inv[OF assms(1)]
  have inv: "value_inv resp new_collector True c" by simp
  then have nn: "list_all (\<lambda>r. obs_value r \<noteq> JNull) (acc c)"
    and rows: "map Inr (acc c) =
         map map_value (concat (map (\<lambda>q. filter retained (page_items (resp (fst q) (snd q)))) (requests c)))"
    by (auto simp: value_inv_def new_collector_def)
  note l2 = year_astype_int64_Inr[OF assms(2)]
  have len: "length df = length (acc c)" using l2 by (simp add: list_all2_lengthD)
  have same: "map obs_value df = map obs_value (acc c)"
    using l2 by (auto simp: list_all2_conv_all_nth intro!: nth_equalityI)
  have l2': "list_all2 (\<lambda>r d. \<exists>i. d = r\<lparr>obs_year := JNum (of_int i)\<rparr>) (acc c) df"
    using l2 by (rule list_all2_mono) blast
  have "\<forall>r\<in>set df. obs_value r \<noteq> JNull"
  proof
    fix r assume "r \<in> set df"
    then have "obs_value r \<in> set (map obs_value df)" by simp
    then have "obs_value r \<in> set (map obs_value (acc c))" using same by simp
    then obtain r' where "r' \<in> set (acc c)" "obs_value r' = obs_value r" by auto
    then show "obs_value r \<noteq> JNull" using nn by (auto simp: list_all_iff)
  qed
  moreover have "length (acc c) = length (concat (map (\<lambda>q. filter retained (page_items (resp (fst q) (snd q)))) (requests c)))"
    using arg_cong[OF rows, of length] by simp
  ultimately show ?thesis using rows len l2' by simp
qed

lemma append_values_repeating:
  "append_values [sample_observation, observation_without_value, sample_observation] a
     = (None, a @ [row_2020, row_2020])"
proof -
  have 1: "dict_get sample_observation ''value'' JNull = Inr (JNum 67571107)"
    by (simp add: sample_observation_def)
  have 2: "dict_get observation_without_value ''value'' JNull = Inr JNull"
    by (simp add: observation_without_value_def)
  have 3: "map_value sample_observation = Inr row_2020"
    by (simp add: map_value_sample row_2020_def)
  show ?thesis by (simp add: 1 2 3)
qed

lemma collect_values_repeating:
  "\<exists>c. collect_values repeating_api [''SP.POP.TOTL''] new_collector = Some (None, c)
      \<and> acc c = [row_2020, row_2020] \<and> requests c = [(''SP.POP.TOTL'', 1)]"
  by (simp, subst collect_indicator.simps)
    (simp add: value_step_def repeating_api_def append_values_repeating new_collector_def
      del: append_values.simps)

text \<open>
  Witness for C7: a page holds the same observation twice and, between the two, an
  observation without value. Two equal rows are collected and both are in the frame.
\<close>

theorem observations_nonnull_not_deduplicated_witness:
  "\<exists>c. collect_values repeating_api [''SP.POP.TOTL''] new_collector = Some (None, c)
      \<and> acc c = [row_2020, row_2020]
      \<and> year_astype_int64 sample_to_int (acc c) =
          Inr [row_2020\<lparr>obs_year := JNum 2020\<rparr>, row_2020\<lparr>obs_year := JNum 2020\<rparr>]
      \<and> list_all (\<lambda>r. obs_value r \<noteq> JNull) [row_2020\<lparr>obs_year := JNum 2020\<rparr>, row_2020\<lparr>obs_year := JNum 2020\<rparr>]
      \<and> length (concat (map (\<lambda>q. filter retained (page_items (repeating_api (fst q) (snd q)))) (requests c))) = 2"
proof -
  obtain c where c: "collect_values repeating_api [''SP.POP.TOTL''] new_collector = Some (None, c)"
    "acc c = [row_2020, row_2020]"
    using collect_values_repeating by blast
  have y: "year_astype_int64 sample_to_int (acc c) =
      Inr [row_2020\<lparr>obs_year := JNum 2020\<rparr>, row_2020\<lparr>obs_year := JNum 2020\<rparr>]"
    by (simp add: c(2) year_astype_int64_def astype_int64_def row_2020_def sample_to_int_def
        sample_read_int_def)
  from observations_nonnull_not_deduplicated[OF c(1) y] c y
  show ?thesis by (auto simp: list_all_iff)
qed

end
